theory Spec2Isabelle
  imports Main "HOL-Library.AList"
begin

section \<open>Python values shared by all scripts\<close>

subsection \<open>Exceptions\<close>

text \<open>
  An exception is its class and the text \<open>str(e)\<close> gives. Only the classes the scripts
  raise or test for are told apart: \<open>OtherException\<close> is any other subclass of
  \<open>Exception\<close>, and \<open>SystemExit\<close> and \<open>KeyboardInterrupt\<close> are the classes
  that derive from \<open>BaseException\<close> only, which \<open>except Exception\<close> lets through.
  A subclass counts as its base (\<open>ModuleNotFoundError\<close> is an \<open>ImportError\<close>,
  \<open>FileNotFoundError\<close> an \<open>OSError\<close>, \<open>JSONDecodeError\<close> a \<open>ValueError\<close>).
\<close>

datatype exc_class =
  KeyError | ImportError | AttributeError | TypeError | ValueError | OSError
  | OtherException | SystemExit | KeyboardInterrupt

record pyexc =
  exc_type :: exc_class
  exc_str :: string

definition raise_exc :: "exc_class \<Rightarrow> string \<Rightarrow> pyexc" where
  "raise_exc c s = \<lparr>exc_type = c, exc_str = s\<rparr>"

text \<open>\<open>isinstance(e, Exception)\<close>, the test of \<open>except Exception\<close>.\<close>

definition is_Exception :: "pyexc \<Rightarrow> bool" where
  "is_Exception e = (exc_type e \<noteq> SystemExit \<and> exc_type e \<noteq> KeyboardInterrupt)"

subsection \<open>Strings\<close>

text \<open>
  A Python string is kept as the bytes of its UTF-8 encoding: the pictographs that open
  the scripts' messages are written as their bytes. A code point is one byte that is not a
  continuation byte, followed by its continuation bytes, so \<open>len\<close> counts the bytes
  that are not continuation bytes.
\<close>

definition is_continuation :: "char \<Rightarrow> bool" where
  "is_continuation c = (let n = (of_char c :: nat) in 128 \<le> n \<and> n < 192)"

definition codepoints :: "string \<Rightarrow> nat" where
  "codepoints s = length (filter (\<lambda>c. \<not> is_continuation c) s)"

text \<open>
  \<open>str.lower\<close>. The ASCII capitals become small letters. Two code points outside
  ASCII have a lowercase form with an ASCII letter in it: U+212A KELVIN SIGN (bytes
  E2 84 AA) becomes \<open>k\<close>, and U+0130 (bytes C4 B0) becomes \<open>i\<close> followed by
  U+0307 (bytes CC 87). Every other code point outside ASCII is left as it is: its
  lowercase form has no ASCII character, so it makes no difference to a search for an
  ASCII word.
\<close>

definition lower_char :: "char \<Rightarrow> char" where
  "lower_char c =
     (case map_of (zip ''ABCDEFGHIJKLMNOPQRSTUVWXYZ'' ''abcdefghijklmnopqrstuvwxyz'') c of
        Some l \<Rightarrow> l
      | None \<Rightarrow> c)"

fun lower :: "string \<Rightarrow> string" where
  "lower [] = []"
| "lower (c # s) =
     (if c = CHR 0xE2 \<and> take 2 s = [CHR 0x84, CHR 0xAA] then CHR ''k'' # lower (drop 2 s)
      else if c = CHR 0xC4 \<and> take 1 s = [CHR 0xB0]
      then CHR ''i'' # CHR 0xCC # CHR 0x87 # lower (drop 1 s)
      else lower_char c # lower s)"

text \<open>\<open>s.startswith(p)\<close> and the substring test \<open>sub in s\<close>.\<close>

fun startswith :: "string \<Rightarrow> string \<Rightarrow> bool" where
  "startswith s [] = True"
| "startswith [] (c # p) = False"
| "startswith (x # s) (c # p) = (x = c \<and> startswith s p)"

fun py_in :: "string \<Rightarrow> string \<Rightarrow> bool" where
  "py_in sub [] = (sub = [])"
| "py_in sub (x # s) = (startswith (x # s) sub \<or> py_in sub s)"

definition apostrophe :: string where
  "apostrophe = [CHR 0x27]"

definition target_sign :: string where
  "target_sign = [CHR 0xF0, CHR 0x9F, CHR 0x8E, CHR 0xAF]"

definition check_sign :: string where
  "check_sign = [CHR 0xE2, CHR 0x9C, CHR 0x85]"

definition wrench_sign :: string where
  "wrench_sign = [CHR 0xF0, CHR 0x9F, CHR 0x94, CHR 0xA7]"

definition warning_sign :: string where
  "warning_sign = [CHR 0xE2, CHR 0x9A, CHR 0xA0, CHR 0xEF, CHR 0xB8, CHR 0x8F]"

definition info_sign :: string where
  "info_sign = [CHR 0xE2, CHR 0x84, CHR 0xB9, CHR 0xEF, CHR 0xB8, CHR 0x8F]"

definition shield_sign :: string where
  "shield_sign = [CHR 0xF0, CHR 0x9F, CHR 0x9B, CHR 0xA1, CHR 0xEF, CHR 0xB8, CHR 0x8F]"

definition cross_sign :: string where
  "cross_sign = [CHR 0xE2, CHR 0x9D, CHR 0x8C]"

subsection \<open>JSON documents\<close>

text \<open>
  What \<open>json.load\<close> returns: \<open>None\<close>, a bool, an int, a float, a str, a list or a
  dict (its items in insertion order). Floats are opaque.
\<close>

typedecl pyfloat

datatype json =
  JNull | JBool bool | JNum int | JFloat pyfloat | JStr string
  | JArr "json list" | JObj "(string \<times> json) list"

text \<open>\<open>obj[key]\<close> with a string key: only a dict that has the key answers.\<close>

fun py_getitem :: "json \<Rightarrow> string \<Rightarrow> pyexc + json" where
  "py_getitem (JObj kvs) k =
     (case map_of kvs k of
        None \<Rightarrow> Inl (raise_exc KeyError (apostrophe @ k @ apostrophe))
      | Some v \<Rightarrow> Inr v)"
| "py_getitem (JArr xs) k =
     Inl (raise_exc TypeError ''list indices must be integers or slices, not str'')"
| "py_getitem (JStr s) k = Inl (raise_exc TypeError ''string indices must be integers'')"
| "py_getitem j k = Inl (raise_exc TypeError ''object is not subscriptable'')"

text \<open>\<open>len(obj)\<close>: lists, dicts and strings have a length; a string's is its
  number of code points.\<close>

fun py_len :: "json \<Rightarrow> pyexc + nat" where
  "py_len (JArr xs) = Inr (length xs)"
| "py_len (JObj kvs) = Inr (length kvs)"
| "py_len (JStr s) = Inr (codepoints s)"
| "py_len j = Inl (raise_exc TypeError ''object has no len()'')"

text \<open>\<open>list.insert(i, x)\<close> for \<open>i \<ge> 0\<close>: before position \<open>i\<close>, at the end when
  the list is shorter.\<close>

definition list_insert :: "nat \<Rightarrow> 'a \<Rightarrow> 'a list \<Rightarrow> 'a list" where
  "list_insert i x xs = take i xs @ x # drop i xs"

text \<open>\<open>obj.insert(i, x)\<close>: only a list has the method.\<close>

fun py_insert :: "json \<Rightarrow> nat \<Rightarrow> json \<Rightarrow> pyexc + json" where
  "py_insert (JArr xs) i x = Inr (JArr (list_insert i x xs))"
| "py_insert j i x = Inl (raise_exc AttributeError (''object has no attribute 'insert'' @ apostrophe))"

section \<open>The interpreter and its surroundings\<close>

text \<open>
  A file either holds text that parses as JSON, kept as the document it parses to (what
  \<open>json.dump\<close> writes parses back to the document dumped), or text that
  \<open>json.load\<close> rejects.
\<close>

datatype file_content = JsonFile json | RawFile string

text \<open>Objects found in module attribute tables: a library function (by identity), or
  one of the closures the patches create.\<close>

datatype pyobj = Native nat | Unified_safe_pca | Pca_compat_safe_pca | Ensure_pca_compatibility

text \<open>\<open>sys.excepthook\<close>: a hook of the interpreter (by identity), or the closure
  \<open>resilient_excepthook\<close> around the hook it captured.\<close>

datatype hook = SysHook nat | Resilient_excepthook hook

text \<open>
  The state the scripts read and write. \<open>files\<close> are the files that can be opened for
  reading and \<open>writable\<close> the paths that can be opened for writing. \<open>same_file\<close>
  relates two different paths that lead to one file (another spelling, a link): what is
  written through one is read through the other. Importing a module
  either raises or gives its attribute table. \<open>applied_patches\<close> and
  \<open>notebook_name\<close> are the fields of the module-level \<open>compat_manager\<close>.
\<close>

record world =
  files :: "string \<rightharpoonup> file_content"
  writable :: "string \<Rightarrow> bool"
  same_file :: "string \<Rightarrow> string \<Rightarrow> bool"
  stdout :: "string list"
  anndata_experimental :: "pyexc + (string \<rightharpoonup> pyobj)"
  scanpy :: "pyexc option"
  scanpy_plotting :: "pyexc + (string \<rightharpoonup> pyobj)"
  excepthook :: hook
  builtins :: "string \<rightharpoonup> pyobj"
  applied_patches :: "string list"
  notebook_name :: "string option"

text \<open>Writing a whole file through a path.\<close>

definition write_file :: "string \<Rightarrow> file_content \<Rightarrow> world \<Rightarrow> world" where
  "write_file path content w =
     w\<lparr>files := (\<lambda>p. if p = path \<or> same_file w path p then Some content else files w p)\<rparr>"

definition print :: "string \<Rightarrow> world \<Rightarrow> world" where
  "print line w = w\<lparr>stdout := stdout w @ [line]\<rparr>"

section \<open>scripts/pca_compatibility_fix.py\<close>

definition insert_index :: nat where
  "insert_index = 26"

definition compatibility_cell :: json where
  "compatibility_cell = JObj [
     (''cell_type'', JStr ''code''),
     (''execution_count'', JNull),
     (''id'', JStr ''pca-compatibility-fix''),
     (''metadata'', JObj []),
     (''outputs'', JArr []),
     (''source'', JArr [
        JStr (''# PCA Compatibility Fix: Convert rapids-singlecell PCA results to scanpy format'' @ [CHR 10]),
        JStr (''try:'' @ [CHR 10]),
        JStr (''    if 'pca' not in adata.uns:'' @ [CHR 10]),
        JStr (''        print('' @ apostrophe @ warning_sign @ ''  PCA results not found in adata.uns, attempting to recreate...')'' @ [CHR 10]),
        JStr (''        if hasattr(adata, 'obsm') and 'X_pca' in adata.obsm:'' @ [CHR 10]),
        JStr (''            # Create minimal PCA structure for plotting'' @ [CHR 10]),
        JStr (''            import numpy as np'' @ [CHR 10]),
        JStr (''            n_pcs = min(100, adata.obsm['X_pca'].shape[1])'' @ [CHR 10]),
        JStr (''            # Create dummy variance ratio (will be replaced if available)'' @ [CHR 10]),
        JStr (''            variance_ratio = np.ones(n_pcs) / n_pcs'' @ [CHR 10]),
        JStr (''            if hasattr(adata, 'varm') and 'PCs' in adata.varm:'' @ [CHR 10]),
        JStr (''                # Use actual variance if available'' @ [CHR 10]),
        JStr (''                variance_ratio = np.var(adata.obsm['X_pca'], axis=0)'' @ [CHR 10]),
        JStr (''                variance_ratio = variance_ratio / variance_ratio.sum()'' @ [CHR 10]),
        JStr (''            adata.uns['pca'] = {'' @ [CHR 10]),
        JStr (''                'variance': variance_ratio * adata.n_vars,'' @ [CHR 10]),
        JStr (''                'variance_ratio': variance_ratio'' @ [CHR 10]),
        JStr (''            }'' @ [CHR 10]),
        JStr (''            print(f'' @ apostrophe @ check_sign @ '' Created PCA structure with {n_pcs} components')'' @ [CHR 10]),
        JStr (''        else:'' @ [CHR 10]),
        JStr (''            print('' @ apostrophe @ cross_sign @ '' No PCA data found, skipping PCA plots')'' @ [CHR 10]),
        JStr (''    else:'' @ [CHR 10]),
        JStr (''        print('' @ apostrophe @ check_sign @ '' PCA data already available')'' @ [CHR 10]),
        JStr (''except Exception as e:'' @ [CHR 10]),
        JStr (''    print(f'' @ apostrophe @ warning_sign @ ''  PCA compatibility fix failed: {e}')'' @ [CHR 10]),
        JStr ''    print('Continuing without PCA plots...')''])]"

text \<open>\<open>with open(notebook_path, 'r') as f: nb = json.load(f)\<close>\<close>

definition json_load :: "string \<Rightarrow> world \<Rightarrow> pyexc + json" where
  "json_load path w =
     (case files w path of
        None \<Rightarrow> Inl (raise_exc OSError (''No such file or directory: '' @ apostrophe @ path @ apostrophe))
      | Some (RawFile t) \<Rightarrow> Inl (raise_exc ValueError ''Expecting value'')
      | Some (JsonFile nb) \<Rightarrow> Inr nb)"

text \<open>\<open>with open(output_path, 'w') as f: json.dump(nb, f, indent=2)\<close>\<close>

definition json_dump :: "json \<Rightarrow> string \<Rightarrow> world \<Rightarrow> pyexc option \<times> world" where
  "json_dump nb path w =
     (if writable w path
      then (None, write_file path (JsonFile nb) w)
      else (Some (raise_exc OSError (''Permission denied: '' @ apostrophe @ path @ apostrophe)), w))"

text \<open>
  The list \<open>nb['cells']\<close> is changed in place: afterwards the dict holds the changed
  list under the same key, at the same place among its items.
\<close>

fun store_item :: "json \<Rightarrow> string \<Rightarrow> json \<Rightarrow> json" where
  "store_item (JObj kvs) k v = JObj (AList.update k v kvs)"
| "store_item j k v = j"

text \<open>Lines 56 to 61 of the script, on the loaded document.\<close>

definition insert_compatibility_cell :: "json \<Rightarrow> world \<Rightarrow> (pyexc + json) \<times> world" where
  "insert_compatibility_cell nb w =
     (case py_getitem nb ''cells'' of
        Inl e \<Rightarrow> (Inl e, w)
      | Inr cells \<Rightarrow>
          (case py_len cells of
             Inl e \<Rightarrow> (Inl e, w)
           | Inr n \<Rightarrow>
               if insert_index < n then
                 (case py_insert cells insert_index compatibility_cell of
                    Inl e \<Rightarrow> (Inl e, w)
                  | Inr cells' \<Rightarrow>
                      (Inr (store_item nb ''cells'' cells'),
                       print (check_sign @ '' Inserted PCA compatibility cell at position 26'') w))
               else
                 (Inr nb,
                  print (warning_sign @ ''  Could not insert compatibility cell, notebook too short'') w)))"

definition add_pca_compatibility_cell :: "string \<Rightarrow> string \<Rightarrow> world \<Rightarrow> (pyexc + bool) \<times> world" where
  "add_pca_compatibility_cell notebook_path output_path w =
     (case json_load notebook_path w of
        Inl e \<Rightarrow> (Inl e, w)
      | Inr nb \<Rightarrow>
          (case insert_compatibility_cell nb w of
             (Inl e, w1) \<Rightarrow> (Inl e, w1)
           | (Inr nb', w1) \<Rightarrow>
               (case json_dump nb' output_path w1 of
                  (Some e, w2) \<Rightarrow> (Inl e, w2)
                | (None, w2) \<Rightarrow> (Inr True, w2))))"

text \<open>
  \<open>shutil.copy2(src, dst)\<close>: the destination becomes a copy of the source. It raises
  when the source cannot be read, when both paths lead to the same file
  (\<open>SameFileError\<close>), and when the destination cannot be written.
\<close>

definition shutil_copy2 :: "string \<Rightarrow> string \<Rightarrow> world \<Rightarrow> pyexc option \<times> world" where
  "shutil_copy2 src dst w =
     (case files w src of
        None \<Rightarrow> (Some (raise_exc OSError (''No such file or directory: '' @ apostrophe @ src @ apostrophe)), w)
      | Some content \<Rightarrow>
          if src = dst \<or> same_file w src dst
          then (Some (raise_exc OSError (src @ '' and '' @ dst @ '' are the same file'')), w)
          else if \<not> writable w dst
          then (Some (raise_exc OSError (''Permission denied: '' @ apostrophe @ dst @ apostrophe)), w)
          else (None, write_file dst content w))"

text \<open>
  How a script ends: \<open>sys.exit(n)\<close>, or running off its last line (\<open>Exit 0\<close>), or an
  exception nobody caught. The interpreter's exit status for an uncaught \<open>Exception\<close>
  is 1; the status after an uncaught \<open>SystemExit\<close> or \<open>KeyboardInterrupt\<close> is not
  modelled.
\<close>

datatype proc_end = Exit nat | Uncaught pyexc

fun exit_status :: "proc_end \<Rightarrow> nat option" where
  "exit_status (Exit n) = Some n"
| "exit_status (Uncaught e) = (if is_Exception e then Some 1 else None)"

text \<open>The \<open>__main__\<close> block; \<open>argv\<close> is \<open>sys.argv\<close>, the script's name first.\<close>

definition pca_compatibility_fix_main :: "string list \<Rightarrow> world \<Rightarrow> proc_end \<times> world" where
  "pca_compatibility_fix_main argv w =
     (if length argv \<noteq> 3
      then (Exit 1, print ''Usage: python pca_compatibility_fix.py input.ipynb output.ipynb'' w)
      else
        let input_notebook = argv ! 1; output_notebook = argv ! 2 in
        (case add_pca_compatibility_cell input_notebook output_notebook w of
           (Inr r, w1) \<Rightarrow>
             (Exit 0, print (check_sign @ '' Created compatibility-fixed notebook: '' @ output_notebook) w1)
         | (Inl e, w1) \<Rightarrow>
             if is_Exception e then
               (case shutil_copy2 input_notebook output_notebook
                       (print (cross_sign @ '' Failed to create compatibility fix: '' @ exc_str e) w1) of
                  (Some e2, w2) \<Rightarrow> (Uncaught e2, w2)
                | (None, w2) \<Rightarrow> (Exit 1, w2))
             else (Uncaught e, w1)))"

section \<open>Running statements one after another\<close>

text \<open>
  A procedure gives the exception it raised, if any, and the state it left.
  \<open>and_then\<close> runs the next statement unless the first one raised;
  \<open>try_except\<close> is \<open>try: ... except C: ...\<close> with \<open>catches\<close> the test for \<open>C\<close>.
\<close>

definition and_then ::
  "pyexc option \<times> world \<Rightarrow> (world \<Rightarrow> pyexc option \<times> world) \<Rightarrow> pyexc option \<times> world" where
  "and_then r f = (case r of (Some e, w) \<Rightarrow> (Some e, w) | (None, w) \<Rightarrow> f w)"

definition try_except ::
  "pyexc option \<times> world \<Rightarrow> (pyexc \<Rightarrow> bool) \<Rightarrow> (pyexc \<Rightarrow> world \<Rightarrow> pyexc option \<times> world)
     \<Rightarrow> pyexc option \<times> world" where
  "try_except r catches handler =
     (case r of
        (Some e, w) \<Rightarrow> if catches e then handler e w else (Some e, w)
      | (None, w) \<Rightarrow> (None, w))"

section \<open>patches/unified_compat.py\<close>

definition set_notebook_context :: "string \<Rightarrow> world \<Rightarrow> world" where
  "set_notebook_context name w =
     print (target_sign @ '' Setting compatibility context for: '' @ name)
       (w\<lparr>notebook_name := Some name\<rparr>)"

definition append_patch :: "string \<Rightarrow> world \<Rightarrow> world" where
  "append_patch name w = w\<lparr>applied_patches := applied_patches w @ [name]\<rparr>"

text \<open>
  The body of the \<open>try\<close> of \<open>apply_anndata_compatibility\<close>.
  \<open>from anndata.experimental import read_elem_lazy\<close> raises what importing the module
  raises, or \<open>ImportError\<close> when the module lacks the name. The inner
  \<open>try: from anndata.experimental import read_elem_as_dask ... except ImportError:\<close>
  takes its handler exactly when the (already imported) module lacks the old name.
\<close>

definition anndata_try_body :: "bool \<Rightarrow> world \<Rightarrow> pyexc option \<times> world" where
  "anndata_try_body record_patch w =
     (case anndata_experimental w of
        Inl e \<Rightarrow> (Some e, w)
      | Inr attrs \<Rightarrow>
          (case attrs ''read_elem_lazy'' of
             None \<Rightarrow>
               (Some (raise_exc ImportError
                  (''cannot import name 'read_elem_lazy' from 'anndata.experimental'' @ apostrophe)), w)
           | Some read_elem_lazy \<Rightarrow>
               (case attrs ''read_elem_as_dask'' of
                  Some read_elem_as_dask \<Rightarrow>
                    (None, print (check_sign @ '' read_elem_as_dask already available'') w)
                | None \<Rightarrow>
                    let w1 = w\<lparr>anndata_experimental :=
                                 Inr (attrs(''read_elem_as_dask'' \<mapsto> read_elem_lazy))\<rparr>;
                        w2 = print (wrench_sign @ '' Patched: read_elem_as_dask -> read_elem_lazy'') w1
                    in (None, if record_patch then append_patch ''anndata_read_elem_as_dask'' w2 else w2))))"

definition apply_anndata_compatibility :: "world \<Rightarrow> pyexc option \<times> world" where
  "apply_anndata_compatibility w =
     try_except (anndata_try_body True w) is_Exception
       (\<lambda>e w'. (None, print (warning_sign @ '' AnnData patch failed: '' @ exc_str e) w'))"

text \<open>
  \<open>if not hasattr(scpl, '_original_pca'): scpl._original_pca = scpl.pca\<close> on the
  attribute table of \<open>scanpy.plotting\<close>.
\<close>

definition store_original_pca :: "(string \<rightharpoonup> pyobj) \<Rightarrow> pyexc + (string \<rightharpoonup> pyobj)" where
  "store_original_pca scpl =
     (if scpl ''_original_pca'' = None then
        (case scpl ''pca'' of
           None \<Rightarrow> Inl (raise_exc AttributeError
                     (''module 'scanpy.plotting' has no attribute 'pca'' @ apostrophe))
         | Some f \<Rightarrow> Inr (scpl(''_original_pca'' \<mapsto> f)))
      else Inr scpl)"

text \<open>The \<open>try\<close> body both PCA patches share, up to \<open>scpl.pca = safe_pca\<close>.\<close>

definition pca_try_body :: "pyobj \<Rightarrow> world \<Rightarrow> pyexc option \<times> world" where
  "pca_try_body safe_pca_closure w =
     (case scanpy w of
        Some e \<Rightarrow> (Some e, w)
      | None \<Rightarrow>
          (case scanpy_plotting w of
             Inl e \<Rightarrow> (Some e, w)
           | Inr scpl \<Rightarrow>
               (case store_original_pca scpl of
                  Inl e \<Rightarrow> (Some e, w)
                | Inr scpl1 \<Rightarrow>
                    (None, print (check_sign @ '' Applied PCA plotting compatibility patch'')
                             (w\<lparr>scanpy_plotting := Inr (scpl1(''pca'' \<mapsto> safe_pca_closure))\<rparr>)))))"

definition is_ImportError :: "pyexc \<Rightarrow> bool" where
  "is_ImportError e = (exc_type e = ImportError)"

definition apply_pca_compatibility :: "world \<Rightarrow> pyexc option \<times> world" where
  "apply_pca_compatibility w =
     try_except
       (and_then (pca_try_body Unified_safe_pca w)
          (\<lambda>w'. (None, append_patch ''pca_plotting_safety'' w')))
       is_ImportError
       (\<lambda>e w'. (None, print (info_sign @ '' scanpy not available for PCA patching'') w'))"

text \<open>What a Python call returns: \<open>None\<close> or some other object.\<close>

datatype pyval = PyNone | PyObject nat

text \<open>
  The closure \<open>safe_pca\<close>; \<open>original_pca\<close> is the function bound to
  \<open>scpl._original_pca\<close> and \<open>args\<close> stands for \<open>*args, **kwargs\<close>.
\<close>

definition safe_pca ::
  "('a \<Rightarrow> world \<Rightarrow> (pyexc + pyval) \<times> world) \<Rightarrow> 'a \<Rightarrow> world \<Rightarrow> (pyexc + pyval) \<times> world" where
  "safe_pca original_pca args w =
     (case original_pca args w of
        (Inr v, w1) \<Rightarrow> (Inr v, w1)
      | (Inl e, w1) \<Rightarrow>
          if exc_type e = KeyError then
            if py_in ''pca'' (exc_str e) then
              (Inr PyNone,
               print ''   Analysis data is complete, only visualization affected''
                 (print ''   This is a known compatibility issue''
                    (print (warning_sign @ '' PCA plotting failed due to missing 'pca' key'') w1)))
            else (Inl e, w1)
          else (Inl e, w1))"

text \<open>
  \<open>sys.excepthook(exc_type, exc_value, exc_traceback)\<close>. A hook of the interpreter is
  not run here: the result names it and the exception it was handed. \<open>None\<close> says that a
  \<open>resilient_excepthook\<close> returned without calling the hook it had captured.
\<close>

definition known_keywords :: "string list" where
  "known_keywords = [''keyerror: 'pca'' @ apostrophe, ''pca'', ''plotting'']"

fun call_hook :: "hook \<Rightarrow> pyexc \<Rightarrow> world \<Rightarrow> (nat \<times> pyexc) option \<times> world" where
  "call_hook (SysHook i) exc w = (Some (i, exc), w)"
| "call_hook (Resilient_excepthook original_excepthook) exc w =
     (let error_msg = lower (exc_str exc) in
      if list_ex (\<lambda>keyword. py_in keyword error_msg) known_keywords then
        (None,
         print ''   Notebook execution continues...''
           (print (''   Error: '' @ exc_str exc)
              (print (shield_sign @ '' Handled known plotting error gracefully'') w)))
      else call_hook original_excepthook exc w)"

definition apply_general_resilience :: "world \<Rightarrow> pyexc option \<times> world" where
  "apply_general_resilience w =
     (let original_excepthook = excepthook w in
      (None, append_patch ''general_resilience''
               (print (check_sign @ '' Applied general error resilience'')
                  (w\<lparr>excepthook := Resilient_excepthook original_excepthook\<rparr>))))"

definition apply_all_patches :: "world \<Rightarrow> pyexc option \<times> world" where
  "apply_all_patches w =
     and_then
       (and_then
          (apply_anndata_compatibility (print (wrench_sign @ '' Applying all compatibility patches...'') w))
          apply_pca_compatibility)
       apply_general_resilience"

text \<open>
  \<open>not self.notebook_name\<close> is true of \<open>None\<close> and of the empty string: both take
  the first branch.
\<close>

definition apply_notebook_specific_patches :: "world \<Rightarrow> pyexc option \<times> world" where
  "apply_notebook_specific_patches w =
     (let no_context =
            apply_all_patches (print (warning_sign @ '' No notebook context set, applying all patches'') w)
      in
      case notebook_name w of
        None \<Rightarrow> no_context
      | Some n \<Rightarrow>
          if n = [] then no_context
          else
            let w1 = print (target_sign @ '' Applying patches for '' @ n) w in
            if n \<in> set [''01_scRNA_analysis_preprocessing''] then
              and_then (apply_pca_compatibility w1) apply_general_resilience
            else if n \<in> set [''04_scRNA_analysis_dask_out_of_core'', ''05_scRNA_analysis_multi_GPU''] then
              and_then (apply_anndata_compatibility w1) apply_general_resilience
            else apply_general_resilience w1)"

section \<open>patches/anndata_compat.py and patches/pca_compat.py\<close>

definition patch_anndata :: "world \<Rightarrow> pyexc option \<times> world" where
  "patch_anndata w =
     try_except (anndata_try_body False w) is_Exception
       (\<lambda>e w'. (None, print (warning_sign @ '' Patch failed: '' @ exc_str e) w'))"

definition pca_compat_safe_pca ::
  "('a \<Rightarrow> world \<Rightarrow> (pyexc + pyval) \<times> world) \<Rightarrow> 'a \<Rightarrow> world \<Rightarrow> (pyexc + pyval) \<times> world" where
  "pca_compat_safe_pca original_pca args w =
     (case original_pca args w of
        (Inr v, w1) \<Rightarrow> (Inr v, w1)
      | (Inl e, w1) \<Rightarrow>
          if exc_type e = KeyError then
            if py_in ''pca'' (exc_str e) then
              (Inr PyNone,
               print ''   Continuing with notebook execution...''
                 (print ''   The analysis data is complete, only PCA visualization is affected''
                    (print (warning_sign @ '' PCA plotting failed due to missing 'pca' key - this is a known compatibility issue'') w1)))
            else (Inl e, w1)
          else (Inl e, w1))"

definition patch_pca_compatibility :: "world \<Rightarrow> pyexc option \<times> world" where
  "patch_pca_compatibility w =
     and_then
       (try_except
          (pca_try_body Pca_compat_safe_pca
             (print (wrench_sign @ '' Applying PCA compatibility patches...'') w))
          is_ImportError
          (\<lambda>e w'. (None, print (info_sign @ '' scanpy not available for PCA patching'') w')))
       (\<lambda>w'. (None, print (check_sign @ '' PCA compatibility patches applied successfully'')
                      (w'\<lparr>builtins := (builtins w')(''ensure_pca_compatibility'' \<mapsto> Ensure_pca_compatibility)\<rparr>)))"

section \<open>patches/pca_safe_execution.py\<close>

text \<open>
  What the wrapper reaches outside this repository's patches: whether importing
  \<open>pca_compat\<close> and \<open>papermill\<close> raises, and what \<open>pm.execute_notebook\<close> does
  with the two paths.
\<close>

record externals =
  import_pca_compat :: "pyexc option"
  import_papermill :: "pyexc option"
  execute_notebook :: "string \<Rightarrow> string \<Rightarrow> world \<Rightarrow> pyexc option \<times> world"

definition import_module :: "pyexc option \<Rightarrow> world \<Rightarrow> pyexc option \<times> world" where
  "import_module r w = (r, w)"

definition execute_try_body :: "externals \<Rightarrow> string \<Rightarrow> string \<Rightarrow> world \<Rightarrow> pyexc option \<times> world" where
  "execute_try_body ext notebook_path output_path w =
     and_then (import_module (import_pca_compat ext) w) (\<lambda>w1.
     and_then (patch_pca_compatibility w1) (\<lambda>w2.
     and_then (import_module (import_papermill ext) w2) (\<lambda>w3.
     and_then (execute_notebook ext notebook_path output_path
                 (print (wrench_sign @ '' Executing notebook with PCA safety patches...'') w3)) (\<lambda>w4.
     (None, print (check_sign @ '' Notebook executed successfully with PCA safety'') w4)))))"

text \<open>\<open>traceback.print_exc()\<close> writes to standard error, which is not part of the state.\<close>

definition execute_with_pca_safety ::
  "externals \<Rightarrow> string \<Rightarrow> string \<Rightarrow> world \<Rightarrow> (pyexc + bool) \<times> world" where
  "execute_with_pca_safety ext notebook_path output_path w =
     (case execute_try_body ext notebook_path output_path w of
        (None, w1) \<Rightarrow> (Inr True, w1)
      | (Some e, w1) \<Rightarrow>
          if is_Exception e then
            let error_msg = exc_str e in
            if py_in ''pca'' (lower error_msg) \<or> py_in ''keyerror'' (lower error_msg) then
              (Inr True,
               print (check_sign @ '' Notebook execution completed with known PCA limitation'')
                 (print (''   '' @ error_msg)
                    (print (warning_sign @ '' PCA-related error detected but handled gracefully:'') w1)))
            else
              (Inr False, print (cross_sign @ '' Genuine execution error: '' @ error_msg) w1)
          else (Inl e, w1))"

definition pca_safe_execution_main :: "externals \<Rightarrow> string list \<Rightarrow> world \<Rightarrow> proc_end \<times> world" where
  "pca_safe_execution_main ext argv w =
     (if length argv \<noteq> 3
      then (Exit 1, print ''Usage: python pca_safe_execution.py <input_notebook> <output_notebook>'' w)
      else
        (case execute_with_pca_safety ext (argv ! 1) (argv ! 2) w of
           (Inr success, w1) \<Rightarrow> (Exit (if success then 0 else 1), w1)
         | (Inl e, w1) \<Rightarrow> (Uncaught e, w1)))"

section \<open>Example states\<close>

text \<open>A notebook of 27 numbered cells, and one of two cells.\<close>

definition example_cells :: "json list" where
  "example_cells =
    [JNum 0, JNum 1, JNum 2, JNum 3, JNum 4, JNum 5, JNum 6, JNum 7, JNum 8,
     JNum 9, JNum 10, JNum 11, JNum 12, JNum 13, JNum 14, JNum 15, JNum 16, JNum 17,
     JNum 18, JNum 19, JNum 20, JNum 21, JNum 22, JNum 23, JNum 24, JNum 25, JNum 26]"

definition example_items :: "(string \<times> json) list" where
  "example_items = [(''cells'', JArr example_cells), (''nbformat'', JNum 4)]"

definition short_items :: "(string \<times> json) list" where
  "short_items = [(''metadata'', JObj []), (''cells'', JArr [JNum 0, JNum 1])]"

text \<open>
  A healthy installation: \<open>anndata.experimental\<close> has the new name only,
  \<open>scanpy.plotting\<close> has \<open>pca\<close>, and three files are on disk, the last one
  cut off in the middle.
\<close>

definition example_world :: world where
  "example_world =
     \<lparr>files = [''in.ipynb'' \<mapsto> JsonFile (JObj example_items),
               ''short.ipynb'' \<mapsto> JsonFile (JObj short_items),
               ''broken.ipynb'' \<mapsto> RawFile ''{'cells': [''],
      writable = (\<lambda>p. True),
      same_file = (\<lambda>p q. False),
      stdout = [],
      anndata_experimental = Inr [''read_elem_lazy'' \<mapsto> Native 1],
      scanpy = None,
      scanpy_plotting = Inr [''pca'' \<mapsto> Native 2],
      excepthook = SysHook 0,
      builtins = Map.empty,
      applied_patches = [],
      notebook_name = None\<rparr>"

text \<open>Installations that differ from the healthy one in a single module.\<close>

definition both_names_world :: world where
  "both_names_world =
     example_world\<lparr>anndata_experimental :=
       Inr [''read_elem_lazy'' \<mapsto> Native 1, ''read_elem_as_dask'' \<mapsto> Native 3]\<rparr>"

definition no_anndata_world :: world where
  "no_anndata_world =
     example_world\<lparr>anndata_experimental :=
       Inl (raise_exc ImportError (''No module named 'anndata'' @ apostrophe))\<rparr>"

definition no_scanpy_world :: world where
  "no_scanpy_world =
     example_world\<lparr>scanpy := Some (raise_exc ImportError (''No module named 'scanpy'' @ apostrophe))\<rparr>"

definition broken_scanpy_world :: world where
  "broken_scanpy_world =
     example_world\<lparr>scanpy := Some (raise_exc OtherException ''numpy.dtype size changed'')\<rparr>"

definition interrupted_world :: world where
  "interrupted_world =
     example_world\<lparr>anndata_experimental := Inl (raise_exc KeyboardInterrupt [])\<rparr>"

text \<open>A plotting function that raises, and one that returns.\<close>

definition raising_pca :: "pyexc \<Rightarrow> unit \<Rightarrow> world \<Rightarrow> (pyexc + pyval) \<times> world" where
  "raising_pca e args w = (Inl e, w)"

definition returning_pca :: "pyval \<Rightarrow> unit \<Rightarrow> world \<Rightarrow> (pyexc + pyval) \<times> world" where
  "returning_pca v args w = (Inr v, w)"

definition missing_pca_key :: pyexc where
  "missing_pca_key = raise_exc KeyError (apostrophe @ ''pca'' @ apostrophe)"

definition missing_umap_key :: pyexc where
  "missing_umap_key = raise_exc KeyError (apostrophe @ ''umap'' @ apostrophe)"

definition bad_value :: pyexc where
  "bad_value = raise_exc ValueError ''n_comps must be positive''"

text \<open>
  Surroundings of the execution wrapper: everything there and the notebook runs;
  \<open>papermill\<close> not installed.
\<close>

definition working_externals :: externals where
  "working_externals =
     \<lparr>import_pca_compat = None,
      import_papermill = None,
      execute_notebook = (\<lambda>notebook_path output_path w. (None, w))\<rparr>"

definition no_papermill :: externals where
  "no_papermill =
     working_externals\<lparr>import_papermill :=
       Some (raise_exc ImportError (''No module named 'papermill'' @ apostrophe))\<rparr>"

section \<open>Substrings\<close>

lemma startswith_iff: "startswith s p \<longleftrightarrow> (\<exists>r. s = p @ r)"
  by (induction s p rule: startswith.induct) auto

text \<open>\<open>py_in sub s\<close> holds exactly when \<open>sub\<close> occurs in \<open>s\<close> as a contiguous piece.\<close>

lemma py_in_iff: "py_in sub s \<longleftrightarrow> (\<exists>ps ss. s = ps @ sub @ ss)"
proof (induction s)
  case Nil
  then show ?case by auto
next
  case (Cons x s)
  show ?case
  proof
    assume "py_in sub (x # s)"
    then consider "startswith (x # s) sub" | "py_in sub s" by auto
    then show "\<exists>ps ss. x # s = ps @ sub @ ss"
    proof cases
      case 1
      then obtain r where "x # s = sub @ r" by (auto simp: startswith_iff)
      then have "x # s = [] @ sub @ r" by simp
      then show ?thesis by blast
    next
      case 2
      then obtain ps ss where "s = ps @ sub @ ss" using Cons.IH by blast
      then have "x # s = (x # ps) @ sub @ ss" by simp
      then show ?thesis by blast
    qed
  next
    assume "\<exists>ps ss. x # s = ps @ sub @ ss"
    then obtain ps ss where eq: "x # s = ps @ sub @ ss" by blast
    show "py_in sub (x # s)"
    proof (cases ps)
      case Nil
      with eq have "startswith (x # s) sub" by (auto simp: startswith_iff)
      then show ?thesis by simp
    next
      case (Cons y ps')
      with eq have "s = ps' @ sub @ ss" by simp
      then have "py_in sub s" using Cons.IH by blast
      then show ?thesis by simp
    qed
  qed
qed

section \<open>The cell-injection script\<close>

text \<open>
  C1. A notebook whose cell list has at least 27 entries, read from a readable path and
  written to a writable one: the call returns \<open>True\<close>, and the document written has the
  same keys in the same order and the same value under every key but \<open>cells\<close>; its
  cell list is one longer, holds the compatibility cell at index 26, the original cells
  0 to 25 at their indices and every original cell from 26 on one index later.
\<close>

theorem add_pca_compatibility_cell_inserts:
  assumes "files w notebook_path = Some (JsonFile (JObj kvs))"
    and "map_of kvs ''cells'' = Some (JArr cells)"
    and "27 \<le> length cells"
    and "writable w output_path"
  shows "\<exists>kvs' cells'.
           fst (add_pca_compatibility_cell notebook_path output_path w) = Inr True
         \<and> files (snd (add_pca_compatibility_cell notebook_path output_path w)) output_path
             = Some (JsonFile (JObj kvs'))
         \<and> map fst kvs' = map fst kvs
         \<and> (\<forall>k. k \<noteq> ''cells'' \<longrightarrow> map_of kvs' k = map_of kvs k)
         \<and> map_of kvs' ''cells'' = Some (JArr cells')
         \<and> length cells' = length cells + 1
         \<and> cells' ! 26 = compatibility_cell
         \<and> (\<forall>i<26. cells' ! i = cells ! i)
         \<and> (\<forall>i. 26 \<le> i \<and> i < length cells \<longrightarrow> cells' ! (i + 1) = cells ! i)"
proof -
  let ?cells' = "list_insert 26 compatibility_cell cells"
  let ?kvs' = "AList.update ''cells'' (JArr ?cells') kvs"
  have run: "add_pca_compatibility_cell notebook_path output_path w =
      (Inr True, write_file output_path (JsonFile (JObj ?kvs'))
         (print (check_sign @ '' Inserted PCA compatibility cell at position 26'') w))"
    using assms
    by (simp add: add_pca_compatibility_cell_def json_load_def insert_compatibility_cell_def
        insert_index_def json_dump_def print_def)
  have "''cells'' \<in> fst ` set kvs"
    using assms(2) by (metis map_of_SomeD fst_conv image_eqI)
  then have keys: "map fst ?kvs' = map fst kvs"
    by (simp add: update_keys)
  have len: "length ?cells' = length cells + 1"
    by (simp add: list_insert_def)
  have at: "?cells' ! 26 = compatibility_cell"
    using assms(3) by (simp add: list_insert_def nth_append)
  have before: "\<forall>i<26. ?cells' ! i = cells ! i"
    using assms(3) by (simp add: list_insert_def nth_append)
  have after: "\<forall>i. 26 \<le> i \<and> i < length cells \<longrightarrow> ?cells' ! (i + 1) = cells ! i"
    using assms(3) by (auto simp: list_insert_def nth_append nth_Cons')
  show ?thesis
    apply (rule exI[of _ ?kvs'], rule exI[of _ ?cells'])
    using keys len at before after by (simp add: run update_conv' write_file_def)
qed

theorem add_pca_compatibility_cell_inserts_witness:
  "files example_world ''in.ipynb'' = Some (JsonFile (JObj example_items))
   \<and> map_of example_items ''cells'' = Some (JArr example_cells)
   \<and> 27 \<le> length example_cells
   \<and> writable example_world ''out.ipynb''
   \<and> (\<exists>kvs' cells'.
           fst (add_pca_compatibility_cell ''in.ipynb'' ''out.ipynb'' example_world) = Inr True
         \<and> files (snd (add_pca_compatibility_cell ''in.ipynb'' ''out.ipynb'' example_world)) ''out.ipynb''
             = Some (JsonFile (JObj kvs'))
         \<and> map fst kvs' = map fst example_items
         \<and> (\<forall>k. k \<noteq> ''cells'' \<longrightarrow> map_of kvs' k = map_of example_items k)
         \<and> map_of kvs' ''cells'' = Some (JArr cells')
         \<and> length cells' = length example_cells + 1
         \<and> cells' ! 26 = compatibility_cell
         \<and> (\<forall>i<26. cells' ! i = example_cells ! i)
         \<and> (\<forall>i. 26 \<le> i \<and> i < length example_cells \<longrightarrow> cells' ! (i + 1) = example_cells ! i))"
proof -
  have h1: "files example_world ''in.ipynb'' = Some (JsonFile (JObj example_items))"
    by (simp add: example_world_def)
  have h2: "map_of example_items ''cells'' = Some (JArr example_cells)"
    by (simp add: example_items_def)
  have h3: "27 \<le> length example_cells"
    by (simp add: example_cells_def)
  have h4: "writable example_world ''out.ipynb''"
    by (simp add: example_world_def)
  from add_pca_compatibility_cell_inserts [OF h1 h2 h3 h4] h1 h2 h3 h4
  show ?thesis by blast
qed

text \<open>
  C9. A notebook whose cell list has fewer than 27 entries: the call returns \<open>True\<close>
  without inserting, and the document written to the output path is the document read.
\<close>

theorem add_pca_compatibility_cell_short_notebook:
  assumes "files w notebook_path = Some (JsonFile (JObj kvs))"
    and "map_of kvs ''cells'' = Some (JArr cells)"
    and "length cells < 27"
    and "writable w output_path"
  shows "fst (add_pca_compatibility_cell notebook_path output_path w) = Inr True
         \<and> files (snd (add_pca_compatibility_cell notebook_path output_path w)) output_path
             = Some (JsonFile (JObj kvs))"
  using assms
  by (simp add: add_pca_compatibility_cell_def json_load_def insert_compatibility_cell_def
      insert_index_def json_dump_def write_file_def print_def)

theorem add_pca_compatibility_cell_short_notebook_witness:
  "files example_world ''short.ipynb'' = Some (JsonFile (JObj short_items))
   \<and> map_of short_items ''cells'' = Some (JArr [JNum 0, JNum 1])
   \<and> length [JNum 0, JNum 1] < 27
   \<and> writable example_world ''out.ipynb''
   \<and> fst (add_pca_compatibility_cell ''short.ipynb'' ''out.ipynb'' example_world) = Inr True
   \<and> files (snd (add_pca_compatibility_cell ''short.ipynb'' ''out.ipynb'' example_world)) ''out.ipynb''
        = Some (JsonFile (JObj short_items))"
proof -
  have h1: "files example_world ''short.ipynb'' = Some (JsonFile (JObj short_items))"
    by (simp add: example_world_def)
  have h2: "map_of short_items ''cells'' = Some (JArr [JNum 0, JNum 1])"
    by (simp add: short_items_def)
  have h3: "length [JNum 0, JNum 1] < 27"
    by simp
  have h4: "writable example_world ''out.ipynb''"
    by (simp add: example_world_def)
  from add_pca_compatibility_cell_short_notebook [OF h1 h2 h3 h4] h1 h2 h3 h4
  show ?thesis by blast
qed

section \<open>The alias patch\<close>

text \<open>
  C5. When \<open>anndata.experimental\<close> imports, has \<open>read_elem_lazy\<close> and lacks
  \<open>read_elem_as_dask\<close>, both alias patches return normally and leave the module with
  \<open>read_elem_as_dask\<close> bound to the very object \<open>read_elem_lazy\<close> is bound to,
  every other attribute as before.
\<close>

theorem alias_patch_binds_old_name:
  assumes "anndata_experimental w = Inr attrs"
    and "attrs ''read_elem_lazy'' = Some f"
    and "attrs ''read_elem_as_dask'' = None"
  shows "fst (apply_anndata_compatibility w) = None
       \<and> anndata_experimental (snd (apply_anndata_compatibility w))
           = Inr (attrs(''read_elem_as_dask'' \<mapsto> f))
       \<and> fst (patch_anndata w) = None
       \<and> anndata_experimental (snd (patch_anndata w))
           = Inr (attrs(''read_elem_as_dask'' \<mapsto> f))"
  using assms
  by (simp add: apply_anndata_compatibility_def patch_anndata_def anndata_try_body_def
      try_except_def print_def append_patch_def)

theorem alias_patch_binds_old_name_witness:
  "anndata_experimental example_world = Inr [''read_elem_lazy'' \<mapsto> Native 1]
   \<and> [''read_elem_lazy'' \<mapsto> Native 1] ''read_elem_lazy'' = Some (Native 1)
   \<and> [''read_elem_lazy'' \<mapsto> Native 1] ''read_elem_as_dask'' = None
   \<and> anndata_experimental (snd (apply_anndata_compatibility example_world))
       = Inr [''read_elem_lazy'' \<mapsto> Native 1, ''read_elem_as_dask'' \<mapsto> Native 1]
   \<and> anndata_experimental (snd (patch_anndata example_world))
       = Inr [''read_elem_lazy'' \<mapsto> Native 1, ''read_elem_as_dask'' \<mapsto> Native 1]"
proof -
  have h1: "anndata_experimental example_world = Inr [''read_elem_lazy'' \<mapsto> Native 1]"
    by (simp add: example_world_def)
  have h2: "[''read_elem_lazy'' \<mapsto> Native 1] ''read_elem_lazy'' = Some (Native 1)"
    by simp
  have h3: "[''read_elem_lazy'' \<mapsto> Native (1::nat)] ''read_elem_as_dask'' = None"
    by simp
  from alias_patch_binds_old_name [OF h1 h2 h3] h1 h2 h3
  show ?thesis by blast
qed

text \<open>
  C6. When \<open>anndata.experimental\<close> imports and already has \<open>read_elem_as_dask\<close>,
  both alias patches return normally and leave the module's attribute table as it was,
  whether or not the new name exists.
\<close>

theorem alias_patch_keeps_existing_old_name:
  assumes "anndata_experimental w = Inr attrs"
    and "attrs ''read_elem_as_dask'' = Some g"
  shows "fst (apply_anndata_compatibility w) = None
       \<and> anndata_experimental (snd (apply_anndata_compatibility w)) = Inr attrs
       \<and> fst (patch_anndata w) = None
       \<and> anndata_experimental (snd (patch_anndata w)) = Inr attrs"
  using assms
  by (auto simp add: apply_anndata_compatibility_def patch_anndata_def anndata_try_body_def
      try_except_def print_def raise_exc_def is_Exception_def split: option.splits)

theorem alias_patch_keeps_existing_old_name_witness:
  "anndata_experimental both_names_world
     = Inr [''read_elem_lazy'' \<mapsto> Native 1, ''read_elem_as_dask'' \<mapsto> Native 3]
   \<and> [''read_elem_lazy'' \<mapsto> Native 1, ''read_elem_as_dask'' \<mapsto> Native 3] ''read_elem_as_dask''
       = Some (Native 3)
   \<and> anndata_experimental (snd (apply_anndata_compatibility both_names_world))
       = Inr [''read_elem_lazy'' \<mapsto> Native 1, ''read_elem_as_dask'' \<mapsto> Native 3]
   \<and> anndata_experimental (snd (patch_anndata both_names_world))
       = Inr [''read_elem_lazy'' \<mapsto> Native 1, ''read_elem_as_dask'' \<mapsto> Native 3]"
proof -
  have h1: "anndata_experimental both_names_world
     = Inr [''read_elem_lazy'' \<mapsto> Native 1, ''read_elem_as_dask'' \<mapsto> Native 3]"
    by (simp add: both_names_world_def)
  have h2: "[''read_elem_lazy'' \<mapsto> Native 1, ''read_elem_as_dask'' \<mapsto> Native 3] ''read_elem_as_dask''
       = Some (Native 3)"
    by simp
  from alias_patch_keeps_existing_old_name [OF h1 h2] h1 h2
  show ?thesis by blast
qed

section \<open>The plotting wrapper\<close>

text \<open>
  C4. Both \<open>safe_pca\<close> closures: when the original plotting function raises a
  \<open>KeyError\<close> whose text contains \<open>pca\<close>, the wrapper returns \<open>None\<close>; when it
  raises anything else, the wrapper raises that same exception and leaves the state the
  original left; when it returns, the wrapper returns the same value.
\<close>

theorem safe_pca_suppresses_only_pca_KeyError:
  "(original_pca args w = (Inl e, w1) \<and> exc_type e = KeyError
      \<and> (\<exists>ps ss. exc_str e = ps @ ''pca'' @ ss)
    \<longrightarrow> fst (safe_pca original_pca args w) = Inr PyNone
        \<and> fst (pca_compat_safe_pca original_pca args w) = Inr PyNone)
   \<and> (original_pca args w = (Inl e, w1)
      \<and> \<not> (exc_type e = KeyError \<and> (\<exists>ps ss. exc_str e = ps @ ''pca'' @ ss))
    \<longrightarrow> safe_pca original_pca args w = (Inl e, w1)
        \<and> pca_compat_safe_pca original_pca args w = (Inl e, w1))
   \<and> (original_pca args w = (Inr v, w1)
    \<longrightarrow> safe_pca original_pca args w = (Inr v, w1)
        \<and> pca_compat_safe_pca original_pca args w = (Inr v, w1))"
  by (simp add: safe_pca_def pca_compat_safe_pca_def py_in_iff)

theorem safe_pca_suppresses_only_pca_KeyError_witness:
  "fst (safe_pca (raising_pca missing_pca_key) () example_world) = Inr PyNone
   \<and> fst (pca_compat_safe_pca (raising_pca missing_pca_key) () example_world) = Inr PyNone
   \<and> safe_pca (raising_pca missing_umap_key) () example_world = (Inl missing_umap_key, example_world)
   \<and> pca_compat_safe_pca (raising_pca bad_value) () example_world = (Inl bad_value, example_world)
   \<and> safe_pca (returning_pca (PyObject 7)) () example_world = (Inr (PyObject 7), example_world)"
proof -
  have r: "raising_pca e () example_world = (Inl e, example_world)" for e
    by (simp add: raising_pca_def)
  have k1: "exc_type missing_pca_key = KeyError" "exc_type missing_umap_key = KeyError"
    "exc_type bad_value \<noteq> KeyError"
    by (simp_all add: missing_pca_key_def missing_umap_key_def bad_value_def raise_exc_def)
  have "py_in ''pca'' (exc_str missing_pca_key)"
    by (simp add: missing_pca_key_def raise_exc_def apostrophe_def)
  then have k2: "\<exists>ps ss. exc_str missing_pca_key = ps @ ''pca'' @ ss"
    using py_in_iff by blast
  have "\<not> py_in ''pca'' (exc_str missing_umap_key)"
    by (simp add: missing_umap_key_def raise_exc_def apostrophe_def)
  then have k3: "\<not> (\<exists>ps ss. exc_str missing_umap_key = ps @ ''pca'' @ ss)"
    using py_in_iff by blast
  have v: "returning_pca (PyObject 7) () example_world = (Inr (PyObject 7), example_world)"
    by (simp add: returning_pca_def)
  note t = safe_pca_suppresses_only_pca_KeyError
  from t [of "raising_pca missing_pca_key" "()" example_world missing_pca_key example_world]
    r k1 k2
  have c1: "fst (safe_pca (raising_pca missing_pca_key) () example_world) = Inr PyNone
      \<and> fst (pca_compat_safe_pca (raising_pca missing_pca_key) () example_world) = Inr PyNone"
    by blast
  from t [of "raising_pca missing_umap_key" "()" example_world missing_umap_key example_world]
    r k3
  have c2: "safe_pca (raising_pca missing_umap_key) () example_world
      = (Inl missing_umap_key, example_world)"
    by blast
  from t [of "raising_pca bad_value" "()" example_world bad_value example_world]
    r k1
  have c3: "pca_compat_safe_pca (raising_pca bad_value) () example_world
      = (Inl bad_value, example_world)"
    by blast
  from t [of "returning_pca (PyObject 7)" "()" example_world _ example_world "PyObject 7"] v
  have c4: "safe_pca (returning_pca (PyObject 7)) () example_world
      = (Inr (PyObject 7), example_world)"
    by blast
  from c1 c2 c3 c4 show ?thesis by blast
qed

section \<open>The exception hook\<close>

lemma known_keyword_iff:
  "list_ex (\<lambda>keyword. py_in keyword s) known_keywords
   \<longleftrightarrow> (\<exists>keyword \<in> set [''keyerror: 'pca'' @ apostrophe, ''pca'', ''plotting''].
          \<exists>ps ss. s = ps @ keyword @ ss)"
  unfolding known_keywords_def list_ex_iff py_in_iff ..

text \<open>An exception no keyword occurs in goes down a chain of hooks to a hook of the
  interpreter, untouched.\<close>

lemma call_hook_passes:
  "\<not> list_ex (\<lambda>keyword. py_in keyword (lower (exc_str exc))) known_keywords
   \<Longrightarrow> \<exists>i. call_hook h exc w = (Some (i, exc), w)"
  by (induction h) simp_all

text \<open>
  C8. \<open>apply_general_resilience\<close> installs \<open>resilient_excepthook\<close> around the hook
  that was installed before. Called with an exception, it returns without calling that
  hook (only printing) when the lowercased text of the exception contains
  \<open>keyerror: 'pca'\<close>, \<open>pca\<close> or \<open>plotting\<close>; otherwise it does what the earlier
  hook does with the same exception, which ends in a hook of the interpreter.
\<close>

theorem resilient_excepthook_suppresses_known:
  "excepthook (snd (apply_general_resilience w)) = Resilient_excepthook (excepthook w)
   \<and> ((\<exists>keyword \<in> set [''keyerror: 'pca'' @ apostrophe, ''pca'', ''plotting''].
          \<exists>ps ss. lower (exc_str exc) = ps @ keyword @ ss)
      \<longrightarrow> call_hook (excepthook (snd (apply_general_resilience w))) exc w' =
            (None, print ''   Notebook execution continues...''
                     (print (''   Error: '' @ exc_str exc)
                        (print (shield_sign @ '' Handled known plotting error gracefully'') w'))))
   \<and> (\<not> (\<exists>keyword \<in> set [''keyerror: 'pca'' @ apostrophe, ''pca'', ''plotting''].
          \<exists>ps ss. lower (exc_str exc) = ps @ keyword @ ss)
      \<longrightarrow> call_hook (excepthook (snd (apply_general_resilience w))) exc w'
            = call_hook (excepthook w) exc w'
          \<and> (\<exists>i. call_hook (excepthook w) exc w' = (Some (i, exc), w')))"
proof -
  have hook: "excepthook (snd (apply_general_resilience w)) = Resilient_excepthook (excepthook w)"
    by (simp add: apply_general_resilience_def append_patch_def print_def)
  have kw: "list_ex (\<lambda>keyword. py_in keyword (lower (exc_str exc))) known_keywords
      \<longleftrightarrow> (\<exists>keyword \<in> set [''keyerror: 'pca'' @ apostrophe, ''pca'', ''plotting''].
          \<exists>ps ss. lower (exc_str exc) = ps @ keyword @ ss)"
    by (rule known_keyword_iff)
  show ?thesis
    unfolding hook using kw call_hook_passes [of exc "excepthook w" w']
    by (auto simp: Let_def)
qed

theorem resilient_excepthook_suppresses_known_witness:
  "fst (call_hook (excepthook (snd (apply_general_resilience example_world)))
          (raise_exc OtherException ''Plotting backend missing'') example_world) = None
   \<and> call_hook (excepthook (snd (apply_general_resilience example_world))) bad_value example_world
       = (Some (0, bad_value), example_world)"
proof -
  let ?kws = "[''keyerror: 'pca'' @ apostrophe, ''pca'', ''plotting'']"
  let ?e = "raise_exc OtherException ''Plotting backend missing''"
  have "py_in ''plotting'' (lower (exc_str ?e))"
    by (simp add: raise_exc_def lower_char_def)
  then have "\<exists>ps ss. lower (exc_str ?e) = ps @ ''plotting'' @ ss"
    using py_in_iff by blast
  then have m: "\<exists>keyword \<in> set ?kws. \<exists>ps ss. lower (exc_str ?e) = ps @ keyword @ ss"
    by simp
  have "\<not> list_ex (\<lambda>keyword. py_in keyword (lower (exc_str bad_value))) known_keywords"
    by (simp add: known_keywords_def bad_value_def raise_exc_def lower_char_def
        apostrophe_def)
  then have n: "\<not> (\<exists>keyword \<in> set ?kws. \<exists>ps ss. lower (exc_str bad_value) = ps @ keyword @ ss)"
    using known_keyword_iff [of "lower (exc_str bad_value)"] by blast
  have h: "call_hook (excepthook example_world) bad_value example_world
      = (Some (0, bad_value), example_world)"
    by (simp add: example_world_def)
  note t = resilient_excepthook_suppresses_known
  from t [of example_world ?e example_world] m
  have "call_hook (excepthook (snd (apply_general_resilience example_world))) ?e example_world
      = (None, print ''   Notebook execution continues...''
                 (print (''   Error: '' @ exc_str ?e)
                    (print (shield_sign @ '' Handled known plotting error gracefully'') example_world)))"
    by blast
  then have c1: "fst (call_hook (excepthook (snd (apply_general_resilience example_world))) ?e example_world)
      = None"
    by (rule arg_cong [where f = fst, THEN trans]) simp
  from t [of example_world bad_value example_world] n
  have d: "call_hook (excepthook (snd (apply_general_resilience example_world))) bad_value example_world
       = call_hook (excepthook example_world) bad_value example_world"
    by blast
  have c2: "call_hook (excepthook (snd (apply_general_resilience example_world))) bad_value example_world
       = (Some (0, bad_value), example_world)"
    using d h by (rule trans)
  from c1 c2 show ?thesis by blast
qed

section \<open>The dispatcher\<close>

text \<open>A statement that returns hands the state on; nothing is caught.\<close>

lemma try_except_returns: "fst r = None \<Longrightarrow> try_except r catches handler = r"
  by (cases r) (simp add: try_except_def)

lemma and_then_returns: "fst r = None \<Longrightarrow> and_then r f = f (snd r)"
  by (cases r) (simp add: and_then_def)

text \<open>
  C7, the claim as stated fails: a context set to the empty string is none of the three
  names, and the dispatcher applies all three patch groups.
\<close>

theorem empty_name_applies_all_counterexample:
  "notebook_name (set_notebook_context [] example_world) = Some []
   \<and> [] \<notin> set [''01_scRNA_analysis_preprocessing'', ''04_scRNA_analysis_dask_out_of_core'',
                 ''05_scRNA_analysis_multi_GPU'']
   \<and> applied_patches (snd (apply_notebook_specific_patches (set_notebook_context [] example_world)))
       = [''anndata_read_elem_as_dask'', ''pca_plotting_safety'', ''general_resilience'']"
  by (simp add: set_notebook_context_def example_world_def apply_notebook_specific_patches_def
      apply_all_patches_def apply_anndata_compatibility_def anndata_try_body_def
      apply_pca_compatibility_def pca_try_body_def store_original_pca_def
      apply_general_resilience_def and_then_def try_except_def print_def append_patch_def)

text \<open>
  C7, amended. For a notebook name that is not empty and not one of the three names, the
  dispatcher does what \<open>apply_general_resilience\<close> does after the line announcing the
  name: it returns normally, both library modules and \<open>builtins\<close> are as before, the
  hook is the resilient one around the earlier hook, the only patch recorded is
  \<open>general_resilience\<close> and the only lines printed are the announcement and the line
  of the resilience patch.
\<close>

theorem other_name_general_resilience_only:
  assumes "notebook_name w = Some n"
    and "n \<noteq> []"
    and "n \<notin> set [''01_scRNA_analysis_preprocessing'', ''04_scRNA_analysis_dask_out_of_core'',
                 ''05_scRNA_analysis_multi_GPU'']"
  shows "apply_notebook_specific_patches w
           = apply_general_resilience (print (target_sign @ '' Applying patches for '' @ n) w)
       \<and> fst (apply_notebook_specific_patches w) = None
       \<and> anndata_experimental (snd (apply_notebook_specific_patches w)) = anndata_experimental w
       \<and> scanpy_plotting (snd (apply_notebook_specific_patches w)) = scanpy_plotting w
       \<and> builtins (snd (apply_notebook_specific_patches w)) = builtins w
       \<and> excepthook (snd (apply_notebook_specific_patches w)) = Resilient_excepthook (excepthook w)
       \<and> applied_patches (snd (apply_notebook_specific_patches w))
           = applied_patches w @ [''general_resilience'']
       \<and> stdout (snd (apply_notebook_specific_patches w))
           = stdout w @ [target_sign @ '' Applying patches for '' @ n,
                         check_sign @ '' Applied general error resilience'']"
proof -
  have eq: "apply_notebook_specific_patches w
           = apply_general_resilience (print (target_sign @ '' Applying patches for '' @ n) w)"
    using assms by (simp add: apply_notebook_specific_patches_def Let_def)
  show ?thesis
    unfolding eq by (simp add: apply_general_resilience_def print_def append_patch_def)
qed

theorem other_name_general_resilience_only_witness:
  "notebook_name (set_notebook_context ''02_scRNA_analysis_extended'' example_world)
     = Some ''02_scRNA_analysis_extended''
   \<and> ''02_scRNA_analysis_extended'' \<noteq> []
   \<and> ''02_scRNA_analysis_extended''
       \<notin> set [''01_scRNA_analysis_preprocessing'', ''04_scRNA_analysis_dask_out_of_core'',
               ''05_scRNA_analysis_multi_GPU'']
   \<and> applied_patches (snd (apply_notebook_specific_patches
         (set_notebook_context ''02_scRNA_analysis_extended'' example_world)))
       = [''general_resilience'']
   \<and> anndata_experimental (snd (apply_notebook_specific_patches
         (set_notebook_context ''02_scRNA_analysis_extended'' example_world)))
       = Inr [''read_elem_lazy'' \<mapsto> Native 1]"
proof -
  let ?w = "set_notebook_context ''02_scRNA_analysis_extended'' example_world"
  have h1: "notebook_name ?w = Some ''02_scRNA_analysis_extended''"
    by (simp add: set_notebook_context_def print_def)
  have h2: "''02_scRNA_analysis_extended'' \<noteq> []"
    by simp
  have h3: "''02_scRNA_analysis_extended''
       \<notin> set [''01_scRNA_analysis_preprocessing'', ''04_scRNA_analysis_dask_out_of_core'',
               ''05_scRNA_analysis_multi_GPU'']"
    by simp
  have s: "applied_patches ?w = []" "anndata_experimental ?w = Inr [''read_elem_lazy'' \<mapsto> Native 1]"
    by (simp_all add: set_notebook_context_def print_def example_world_def)
  note c = other_name_general_resilience_only [OF h1 h2 h3]
  from c have a: "applied_patches (snd (apply_notebook_specific_patches ?w))
      = applied_patches ?w @ [''general_resilience'']"
    by blast
  from c have b: "anndata_experimental (snd (apply_notebook_specific_patches ?w))
      = anndata_experimental ?w"
    by blast
  from a b s h1 h2 h3 show ?thesis by simp
qed

text \<open>
  What the alias patch depends on and what it touches: its outcome and the module it
  leaves depend on \<open>anndata.experimental\<close> alone; it raises only what is not an
  \<open>Exception\<close>, and then changes nothing; it leaves the scanpy modules and the hook
  alone and records at most its own patch.
\<close>

lemma apply_anndata_compatibility_depends:
  assumes "anndata_experimental v = anndata_experimental w"
  shows "fst (apply_anndata_compatibility v) = fst (apply_anndata_compatibility w)
       \<and> anndata_experimental (snd (apply_anndata_compatibility v))
           = anndata_experimental (snd (apply_anndata_compatibility w))"
  using assms
  by (auto simp: apply_anndata_compatibility_def anndata_try_body_def try_except_def Let_def
      print_def append_patch_def split: sum.splits option.splits)

lemma apply_anndata_compatibility_raises:
  "fst (apply_anndata_compatibility w) = Some e
   \<longleftrightarrow> anndata_experimental w = Inl e \<and> \<not> is_Exception e"
  by (auto simp: apply_anndata_compatibility_def anndata_try_body_def try_except_def Let_def
      is_Exception_def raise_exc_def split: sum.splits option.splits)

lemma apply_anndata_compatibility_raised:
  "fst (apply_anndata_compatibility w) = Some e \<Longrightarrow> snd (apply_anndata_compatibility w) = w"
  by (auto simp: apply_anndata_compatibility_def anndata_try_body_def try_except_def Let_def
      split: sum.splits option.splits if_splits)

lemma apply_anndata_compatibility_frame:
  "scanpy (snd (apply_anndata_compatibility w)) = scanpy w
   \<and> scanpy_plotting (snd (apply_anndata_compatibility w)) = scanpy_plotting w
   \<and> excepthook (snd (apply_anndata_compatibility w)) = excepthook w
   \<and> (\<exists>ps. set ps \<subseteq> {''anndata_read_elem_as_dask''}
         \<and> applied_patches (snd (apply_anndata_compatibility w)) = applied_patches w @ ps)"
  by (auto simp: apply_anndata_compatibility_def anndata_try_body_def try_except_def Let_def
      print_def append_patch_def split: sum.splits option.splits)

text \<open>The same for the PCA patch and the scanpy modules.\<close>

lemma pca_try_body_depends:
  assumes "scanpy v = scanpy w" and "scanpy_plotting v = scanpy_plotting w"
  shows "fst (pca_try_body c v) = fst (pca_try_body c w)
       \<and> scanpy_plotting (snd (pca_try_body c v)) = scanpy_plotting (snd (pca_try_body c w))"
  using assms
  by (auto simp: pca_try_body_def print_def split: sum.splits option.splits)

lemma apply_pca_compatibility_outcome:
  "fst (apply_pca_compatibility w)
     = (case fst (pca_try_body Unified_safe_pca w) of
          None \<Rightarrow> None
        | Some e \<Rightarrow> if exc_type e = ImportError then None else Some e)"
proof (cases "pca_try_body Unified_safe_pca w")
  case (Pair x w')
  then show ?thesis
    by (cases x)
      (simp_all add: apply_pca_compatibility_def and_then_def try_except_def is_ImportError_def)
qed

lemma apply_pca_compatibility_plotting:
  "scanpy_plotting (snd (apply_pca_compatibility w))
     = scanpy_plotting (snd (pca_try_body Unified_safe_pca w))"
proof (cases "pca_try_body Unified_safe_pca w")
  case (Pair x w')
  then show ?thesis
    by (cases x)
      (simp_all add: apply_pca_compatibility_def and_then_def try_except_def is_ImportError_def
        print_def append_patch_def)
qed

lemma apply_pca_compatibility_raised:
  assumes "fst (apply_pca_compatibility w) = Some e"
  shows "snd (apply_pca_compatibility w) = w"
proof -
  from assms have raised: "fst (pca_try_body Unified_safe_pca w) = Some e"
    and other: "exc_type e \<noteq> ImportError"
    by (auto simp: apply_pca_compatibility_outcome split: option.splits if_splits)
  have "pca_try_body Unified_safe_pca w = (Some e, w)"
    using raised by (auto simp: pca_try_body_def split: sum.splits option.splits)
  with other show ?thesis
    by (simp add: apply_pca_compatibility_def and_then_def try_except_def is_ImportError_def)
qed

lemma apply_pca_compatibility_frame:
  "anndata_experimental (snd (apply_pca_compatibility w)) = anndata_experimental w
   \<and> excepthook (snd (apply_pca_compatibility w)) = excepthook w
   \<and> (\<exists>ps. set ps \<subseteq> {''pca_plotting_safety''}
         \<and> applied_patches (snd (apply_pca_compatibility w)) = applied_patches w @ ps)"
  by (auto simp: apply_pca_compatibility_def pca_try_body_def and_then_def try_except_def
      print_def append_patch_def split: sum.splits option.splits)

text \<open>
  C10, the claim as stated fails: with no notebook context and a \<open>scanpy\<close> whose import
  raises something other than an \<open>ImportError\<close>, the dispatcher raises after the alias
  patch; the resilience patch is not applied and the hook is the one installed before.
\<close>

theorem no_context_broken_scanpy_counterexample:
  "notebook_name broken_scanpy_world = None
   \<and> fst (apply_notebook_specific_patches broken_scanpy_world)
       = Some (raise_exc OtherException ''numpy.dtype size changed'')
   \<and> excepthook (snd (apply_notebook_specific_patches broken_scanpy_world)) = SysHook 0
   \<and> applied_patches (snd (apply_notebook_specific_patches broken_scanpy_world))
       = [''anndata_read_elem_as_dask'']"
  by (simp add: broken_scanpy_world_def example_world_def apply_notebook_specific_patches_def
      apply_all_patches_def apply_anndata_compatibility_def anndata_try_body_def
      apply_pca_compatibility_def pca_try_body_def and_then_def try_except_def
      is_ImportError_def raise_exc_def print_def append_patch_def)

text \<open>
  C10, amended. With no notebook context (the name is \<open>None\<close>) the dispatcher runs the
  AnnData alias patch, then the PCA plotting patch, then the general resilience patch.
  When the first two return normally, that is when importing \<open>anndata.experimental\<close>
  raises nothing outside \<open>Exception\<close> and the \<open>try\<close> body of the PCA patch raises
  nothing but an \<open>ImportError\<close>, all three are applied: the dispatcher returns normally,
  \<open>anndata.experimental\<close> is what the alias patch makes of it, \<open>scanpy.plotting\<close> is
  what the PCA patch makes of it, the hook is the resilient one around the earlier hook,
  and \<open>general_resilience\<close> is recorded last. When the body of the PCA patch raises
  anything else, that exception leaves the dispatcher after the alias patch has been
  applied, and the resilience patch is not. When the alias patch raises, nothing is
  applied.
\<close>

theorem no_context_runs_the_three_patches:
  assumes "notebook_name w = None"
  shows
    "((\<forall>e. anndata_experimental w = Inl e \<longrightarrow> is_Exception e)
        \<and> (\<forall>e. fst (pca_try_body Unified_safe_pca w) = Some e \<longrightarrow> exc_type e = ImportError)
      \<longrightarrow> fst (apply_notebook_specific_patches w) = None
        \<and> anndata_experimental (snd (apply_notebook_specific_patches w))
            = anndata_experimental (snd (apply_anndata_compatibility w))
        \<and> scanpy_plotting (snd (apply_notebook_specific_patches w))
            = scanpy_plotting (snd (apply_pca_compatibility w))
        \<and> excepthook (snd (apply_notebook_specific_patches w))
            = Resilient_excepthook (excepthook w)
        \<and> (\<exists>ps. set ps \<subseteq> {''anndata_read_elem_as_dask'', ''pca_plotting_safety''}
              \<and> applied_patches (snd (apply_notebook_specific_patches w))
                  = applied_patches w @ ps @ [''general_resilience'']))
     \<and> ((\<forall>e. anndata_experimental w = Inl e \<longrightarrow> is_Exception e)
        \<and> fst (pca_try_body Unified_safe_pca w) = Some x \<and> exc_type x \<noteq> ImportError
      \<longrightarrow> fst (apply_notebook_specific_patches w) = Some x
        \<and> anndata_experimental (snd (apply_notebook_specific_patches w))
            = anndata_experimental (snd (apply_anndata_compatibility w))
        \<and> scanpy_plotting (snd (apply_notebook_specific_patches w)) = scanpy_plotting w
        \<and> excepthook (snd (apply_notebook_specific_patches w)) = excepthook w
        \<and> applied_patches (snd (apply_notebook_specific_patches w))
            = applied_patches (snd (apply_anndata_compatibility w)))
     \<and> (anndata_experimental w = Inl x \<and> \<not> is_Exception x
      \<longrightarrow> fst (apply_notebook_specific_patches w) = Some x
        \<and> anndata_experimental (snd (apply_notebook_specific_patches w)) = anndata_experimental w
        \<and> scanpy_plotting (snd (apply_notebook_specific_patches w)) = scanpy_plotting w
        \<and> excepthook (snd (apply_notebook_specific_patches w)) = excepthook w
        \<and> applied_patches (snd (apply_notebook_specific_patches w)) = applied_patches w)"
proof -
  let ?w1 = "print (wrench_sign @ '' Applying all compatibility patches...'')
               (print (warning_sign @ '' No notebook context set, applying all patches'') w)"
  let ?ra = "apply_anndata_compatibility ?w1"
  let ?rp = "apply_pca_compatibility (snd ?ra)"
  let ?r = "apply_notebook_specific_patches w"
  have unfold: "?r = and_then (and_then ?ra apply_pca_compatibility) apply_general_resilience"
    using assms by (simp add: apply_notebook_specific_patches_def apply_all_patches_def)
  have w1: "anndata_experimental ?w1 = anndata_experimental w" "scanpy ?w1 = scanpy w"
    "scanpy_plotting ?w1 = scanpy_plotting w" "excepthook ?w1 = excepthook w"
    "applied_patches ?w1 = applied_patches w"
    by (simp_all add: print_def)
  note dep = apply_anndata_compatibility_depends [OF w1(1)]
  note fa = apply_anndata_compatibility_frame [of ?w1]
  have a_fields: "scanpy (snd ?ra) = scanpy w" "scanpy_plotting (snd ?ra) = scanpy_plotting w"
    "excepthook (snd ?ra) = excepthook w"
    using fa w1 by simp_all
  have a_mod: "anndata_experimental (snd ?ra)
      = anndata_experimental (snd (apply_anndata_compatibility w))"
    using dep by simp
  have a_patches: "applied_patches (snd ?ra) = applied_patches (snd (apply_anndata_compatibility w))"
    by (auto simp: apply_anndata_compatibility_def anndata_try_body_def try_except_def Let_def
        print_def append_patch_def split: sum.splits option.splits)
  obtain pa where pa: "set pa \<subseteq> {''anndata_read_elem_as_dask''}"
    "applied_patches (snd ?ra) = applied_patches w @ pa"
    using fa w1(5) by auto
  have body: "fst (pca_try_body Unified_safe_pca (snd ?ra)) = fst (pca_try_body Unified_safe_pca w)"
    "scanpy_plotting (snd (pca_try_body Unified_safe_pca (snd ?ra)))
       = scanpy_plotting (snd (pca_try_body Unified_safe_pca w))"
    using pca_try_body_depends [OF a_fields(1) a_fields(2)] by simp_all
  note fp = apply_pca_compatibility_frame [of "snd ?ra"]
  obtain pp where pp: "set pp \<subseteq> {''pca_plotting_safety''}"
    "applied_patches (snd ?rp) = applied_patches (snd ?ra) @ pp"
    using fp by auto
  have a_ret: "fst ?ra = None" if "\<forall>e. anndata_experimental w = Inl e \<longrightarrow> is_Exception e"
  proof (cases "fst ?ra")
    case None
    then show ?thesis .
  next
    case (Some e)
    then have "anndata_experimental ?w1 = Inl e \<and> \<not> is_Exception e"
      by (simp add: apply_anndata_compatibility_raises)
    with that w1(1) show ?thesis by simp
  qed
  have c1: "fst ?r = None
        \<and> anndata_experimental (snd ?r) = anndata_experimental (snd (apply_anndata_compatibility w))
        \<and> scanpy_plotting (snd ?r) = scanpy_plotting (snd (apply_pca_compatibility w))
        \<and> excepthook (snd ?r) = Resilient_excepthook (excepthook w)
        \<and> (\<exists>ps. set ps \<subseteq> {''anndata_read_elem_as_dask'', ''pca_plotting_safety''}
              \<and> applied_patches (snd ?r) = applied_patches w @ ps @ [''general_resilience''])"
    if anndata: "\<forall>e. anndata_experimental w = Inl e \<longrightarrow> is_Exception e"
      and pca: "\<forall>e. fst (pca_try_body Unified_safe_pca w) = Some e \<longrightarrow> exc_type e = ImportError"
  proof -
    have ra: "fst ?ra = None" using a_ret [OF anndata] .
    have rp: "fst ?rp = None"
      using pca body(1) by (auto simp: apply_pca_compatibility_outcome split: option.splits)
    have r: "?r = apply_general_resilience (snd ?rp)"
      using ra rp by (simp add: unfold and_then_returns)
    have plot: "scanpy_plotting (snd ?rp) = scanpy_plotting (snd (apply_pca_compatibility w))"
      using body(2) by (simp add: apply_pca_compatibility_plotting)
    have patches: "applied_patches (snd ?r) = applied_patches w @ (pa @ pp) @ [''general_resilience'']"
      using pa(2) pp(2) by (simp add: r apply_general_resilience_def print_def append_patch_def)
    have sub: "set (pa @ pp) \<subseteq> {''anndata_read_elem_as_dask'', ''pca_plotting_safety''}"
      using pa(1) pp(1) by auto
    have "fst ?r = None" "anndata_experimental (snd ?r) = anndata_experimental (snd ?rp)"
      "scanpy_plotting (snd ?r) = scanpy_plotting (snd ?rp)"
      "excepthook (snd ?r) = Resilient_excepthook (excepthook (snd ?rp))"
      by (simp_all add: r apply_general_resilience_def print_def append_patch_def)
    with fp a_mod a_fields(3) plot patches sub show ?thesis
      by (metis (no_types, lifting))
  qed
  have c2: "fst ?r = Some x
        \<and> anndata_experimental (snd ?r) = anndata_experimental (snd (apply_anndata_compatibility w))
        \<and> scanpy_plotting (snd ?r) = scanpy_plotting w
        \<and> excepthook (snd ?r) = excepthook w
        \<and> applied_patches (snd ?r) = applied_patches (snd (apply_anndata_compatibility w))"
    if anndata: "\<forall>e. anndata_experimental w = Inl e \<longrightarrow> is_Exception e"
      and pca: "fst (pca_try_body Unified_safe_pca w) = Some x" "exc_type x \<noteq> ImportError"
  proof -
    have ra: "fst ?ra = None" using a_ret [OF anndata] .
    have rp: "fst ?rp = Some x"
      using pca body(1) by (simp add: apply_pca_compatibility_outcome)
    have "and_then ?ra apply_pca_compatibility = ?rp"
      using ra by (simp add: and_then_returns)
    then have r: "?r = ?rp"
      using rp by (cases ?rp) (simp add: unfold and_then_def)
    have "snd ?rp = snd ?ra"
      using rp by (rule apply_pca_compatibility_raised)
    with r rp a_mod a_fields a_patches show ?thesis by simp
  qed
  have c3: "fst ?r = Some x
        \<and> anndata_experimental (snd ?r) = anndata_experimental w
        \<and> scanpy_plotting (snd ?r) = scanpy_plotting w
        \<and> excepthook (snd ?r) = excepthook w
        \<and> applied_patches (snd ?r) = applied_patches w"
    if "anndata_experimental w = Inl x" "\<not> is_Exception x"
  proof -
    have ra: "fst ?ra = Some x"
      using that w1(1) by (simp add: apply_anndata_compatibility_raises)
    then have same: "snd ?ra = ?w1"
      by (rule apply_anndata_compatibility_raised)
    have r: "?r = ?ra"
      using ra by (cases ?ra) (simp add: unfold and_then_def)
    show ?thesis using r ra same w1 by simp
  qed
  from c1 c2 c3 show ?thesis by blast
qed

theorem no_context_runs_the_three_patches_witness:
  "notebook_name example_world = None
   \<and> fst (apply_notebook_specific_patches example_world) = None
   \<and> excepthook (snd (apply_notebook_specific_patches example_world))
       = Resilient_excepthook (SysHook 0)
   \<and> notebook_name broken_scanpy_world = None
   \<and> excepthook (snd (apply_notebook_specific_patches broken_scanpy_world)) = SysHook 0
   \<and> notebook_name interrupted_world = None
   \<and> applied_patches (snd (apply_notebook_specific_patches interrupted_world)) = []"
proof -
  let ?broken = "raise_exc OtherException ''numpy.dtype size changed''"
  let ?interrupt = "raise_exc KeyboardInterrupt []"
  have n: "notebook_name example_world = None" "notebook_name broken_scanpy_world = None"
    "notebook_name interrupted_world = None"
    by (simp_all add: example_world_def broken_scanpy_world_def interrupted_world_def)
  have h: "excepthook example_world = SysHook 0" "excepthook broken_scanpy_world = SysHook 0"
    "applied_patches interrupted_world = []"
    by (simp_all add: example_world_def broken_scanpy_world_def interrupted_world_def)
  have a1: "\<forall>e. anndata_experimental example_world = Inl e \<longrightarrow> is_Exception e"
    "\<forall>e. anndata_experimental broken_scanpy_world = Inl e \<longrightarrow> is_Exception e"
    by (simp_all add: example_world_def broken_scanpy_world_def)
  have p1: "\<forall>e. fst (pca_try_body Unified_safe_pca example_world) = Some e
      \<longrightarrow> exc_type e = ImportError"
    by (simp add: pca_try_body_def store_original_pca_def example_world_def)
  have p2: "fst (pca_try_body Unified_safe_pca broken_scanpy_world) = Some ?broken"
    "exc_type ?broken \<noteq> ImportError"
    by (simp_all add: pca_try_body_def broken_scanpy_world_def raise_exc_def)
  have i1: "anndata_experimental interrupted_world = Inl ?interrupt" "\<not> is_Exception ?interrupt"
    by (simp_all add: interrupted_world_def is_Exception_def raise_exc_def)
  note t = no_context_runs_the_three_patches
  from t [OF n(1)] a1(1) p1
  have c1: "fst (apply_notebook_specific_patches example_world) = None
      \<and> excepthook (snd (apply_notebook_specific_patches example_world))
          = Resilient_excepthook (excepthook example_world)"
    by blast
  from t [OF n(2), of ?broken] a1(2) p2
  have c2: "excepthook (snd (apply_notebook_specific_patches broken_scanpy_world))
      = excepthook broken_scanpy_world"
    by blast
  from t [OF n(3), of ?interrupt] i1
  have c3: "applied_patches (snd (apply_notebook_specific_patches interrupted_world))
      = applied_patches interrupted_world"
    by blast
  from c1 c2 c3 n h show ?thesis by simp
qed

section \<open>What the patch functions let through\<close>

text \<open>Both \<open>try\<close> bodies raise before they change anything.\<close>

lemma anndata_try_body_raises:
  "fst (anndata_try_body b w) = Some e \<Longrightarrow> anndata_try_body b w = (Some e, w)"
  by (auto simp: anndata_try_body_def Let_def split: sum.splits option.splits)

lemma pca_try_body_raises:
  "fst (pca_try_body c w) = Some e \<Longrightarrow> pca_try_body c w = (Some e, w)"
  by (auto simp: pca_try_body_def split: sum.splits option.splits)

text \<open>
  C2, the claim as stated fails: when importing \<open>scanpy\<close> raises something that is not
  an \<open>ImportError\<close>, \<open>apply_pca_compatibility\<close> raises it to its caller.
\<close>

theorem apply_pca_compatibility_raises_counterexample:
  "fst (pca_try_body Unified_safe_pca broken_scanpy_world)
     = Some (raise_exc OtherException ''numpy.dtype size changed'')
   \<and> fst (apply_pca_compatibility broken_scanpy_world)
     = Some (raise_exc OtherException ''numpy.dtype size changed'')"
  by (simp add: broken_scanpy_world_def example_world_def apply_pca_compatibility_def
      pca_try_body_def and_then_def try_except_def is_ImportError_def raise_exc_def)

text \<open>
  C2, amended. \<open>apply_anndata_compatibility\<close> and \<open>patch_anndata\<close> catch every
  exception of class \<open>Exception\<close> their body raises, print a line with its text and
  return normally. \<open>apply_pca_compatibility\<close> and \<open>patch_pca_compatibility\<close> catch
  an \<open>ImportError\<close> their \<open>try\<close> body raises, print a line and return normally; any
  other exception raised there reaches the caller. Each of the four returns normally when
  its body does. \<open>apply_general_resilience\<close> has no handler and returns normally.
\<close>

theorem patch_functions_exception_handling:
  "(fst (anndata_try_body True w) = Some e \<and> is_Exception e
      \<longrightarrow> apply_anndata_compatibility w
            = (None, print (warning_sign @ '' AnnData patch failed: '' @ exc_str e) w))
   \<and> (fst (anndata_try_body False w) = Some e \<and> is_Exception e
      \<longrightarrow> patch_anndata w = (None, print (warning_sign @ '' Patch failed: '' @ exc_str e) w))
   \<and> (fst (anndata_try_body True w) = None \<longrightarrow> fst (apply_anndata_compatibility w) = None)
   \<and> (fst (anndata_try_body False w) = None \<longrightarrow> fst (patch_anndata w) = None)
   \<and> (fst (pca_try_body Unified_safe_pca w) = Some e \<and> exc_type e = ImportError
      \<longrightarrow> apply_pca_compatibility w
            = (None, print (info_sign @ '' scanpy not available for PCA patching'') w))
   \<and> (fst (pca_try_body Unified_safe_pca w) = Some e \<and> exc_type e \<noteq> ImportError
      \<longrightarrow> apply_pca_compatibility w = (Some e, w))
   \<and> (fst (pca_try_body Unified_safe_pca w) = None \<longrightarrow> fst (apply_pca_compatibility w) = None)
   \<and> (fst (pca_try_body Pca_compat_safe_pca
              (print (wrench_sign @ '' Applying PCA compatibility patches...'') w)) = Some e
        \<and> exc_type e = ImportError
      \<longrightarrow> fst (patch_pca_compatibility w) = None
          \<and> stdout (snd (patch_pca_compatibility w))
              = stdout w @ [wrench_sign @ '' Applying PCA compatibility patches...'',
                            info_sign @ '' scanpy not available for PCA patching'',
                            check_sign @ '' PCA compatibility patches applied successfully''])
   \<and> (fst (pca_try_body Pca_compat_safe_pca
              (print (wrench_sign @ '' Applying PCA compatibility patches...'') w)) = Some e
        \<and> exc_type e \<noteq> ImportError
      \<longrightarrow> patch_pca_compatibility w
            = (Some e, print (wrench_sign @ '' Applying PCA compatibility patches...'') w))
   \<and> (fst (pca_try_body Pca_compat_safe_pca
              (print (wrench_sign @ '' Applying PCA compatibility patches...'') w)) = None
      \<longrightarrow> fst (patch_pca_compatibility w) = None)
   \<and> fst (apply_general_resilience w) = None"
proof -
  let ?w0 = "print (wrench_sign @ '' Applying PCA compatibility patches...'') w"
  have a: "anndata_try_body b w = (Some e, w)" if "fst (anndata_try_body b w) = Some e" for b
    using that by (rule anndata_try_body_raises)
  have p: "pca_try_body c v = (Some e, v)" if "fst (pca_try_body c v) = Some e" for c v
    using that by (rule pca_try_body_raises)
  have c1: "apply_anndata_compatibility w
            = (None, print (warning_sign @ '' AnnData patch failed: '' @ exc_str e) w)"
    if "fst (anndata_try_body True w) = Some e" "is_Exception e"
    using a [OF that(1)] that(2) by (simp add: apply_anndata_compatibility_def try_except_def)
  have c2: "patch_anndata w = (None, print (warning_sign @ '' Patch failed: '' @ exc_str e) w)"
    if "fst (anndata_try_body False w) = Some e" "is_Exception e"
    using a [OF that(1)] that(2) by (simp add: patch_anndata_def try_except_def)
  have c3: "fst (apply_anndata_compatibility w) = None" if "fst (anndata_try_body True w) = None"
    using that by (simp add: apply_anndata_compatibility_def try_except_returns)
  have c4: "fst (patch_anndata w) = None" if "fst (anndata_try_body False w) = None"
    using that by (simp add: patch_anndata_def try_except_returns)
  have c5: "apply_pca_compatibility w
            = (None, print (info_sign @ '' scanpy not available for PCA patching'') w)"
    if "fst (pca_try_body Unified_safe_pca w) = Some e" "exc_type e = ImportError"
    using p [OF that(1)] that(2)
    by (simp add: apply_pca_compatibility_def try_except_def and_then_def is_ImportError_def)
  have c6: "apply_pca_compatibility w = (Some e, w)"
    if "fst (pca_try_body Unified_safe_pca w) = Some e" "exc_type e \<noteq> ImportError"
    using p [OF that(1)] that(2)
    by (simp add: apply_pca_compatibility_def try_except_def and_then_def is_ImportError_def)
  have c7: "fst (apply_pca_compatibility w) = None" if "fst (pca_try_body Unified_safe_pca w) = None"
    using that by (simp add: apply_pca_compatibility_def and_then_returns try_except_returns)
  have c8: "fst (patch_pca_compatibility w) = None
          \<and> stdout (snd (patch_pca_compatibility w))
              = stdout w @ [wrench_sign @ '' Applying PCA compatibility patches...'',
                            info_sign @ '' scanpy not available for PCA patching'',
                            check_sign @ '' PCA compatibility patches applied successfully'']"
    if "fst (pca_try_body Pca_compat_safe_pca ?w0) = Some e" "exc_type e = ImportError"
    using p [OF that(1)] that(2)
    by (simp add: patch_pca_compatibility_def try_except_def and_then_def is_ImportError_def print_def)
  have c9: "patch_pca_compatibility w = (Some e, ?w0)"
    if "fst (pca_try_body Pca_compat_safe_pca ?w0) = Some e" "exc_type e \<noteq> ImportError"
    using p [OF that(1)] that(2)
    by (simp add: patch_pca_compatibility_def try_except_def and_then_def is_ImportError_def)
  have c10: "fst (patch_pca_compatibility w) = None"
    if "fst (pca_try_body Pca_compat_safe_pca ?w0) = None"
    using that by (simp add: patch_pca_compatibility_def and_then_returns try_except_returns)
  have c11: "fst (apply_general_resilience w) = None"
    by (simp add: apply_general_resilience_def)
  from c1 c2 c3 c4 c5 c6 c7 c8 c9 c10 c11 show ?thesis by blast
qed

theorem patch_functions_exception_handling_witness:
  "fst (apply_anndata_compatibility no_anndata_world) = None
   \<and> fst (patch_anndata no_anndata_world) = None
   \<and> fst (apply_pca_compatibility no_anndata_world) = None
   \<and> fst (patch_pca_compatibility no_anndata_world) = None
   \<and> fst (apply_anndata_compatibility no_scanpy_world) = None
   \<and> fst (patch_anndata no_scanpy_world) = None
   \<and> fst (apply_pca_compatibility no_scanpy_world) = None
   \<and> fst (patch_pca_compatibility no_scanpy_world) = None
   \<and> fst (patch_pca_compatibility broken_scanpy_world)
       = Some (raise_exc OtherException ''numpy.dtype size changed'')"
proof -
  let ?no_anndata = "raise_exc ImportError (''No module named 'anndata'' @ apostrophe)"
  let ?no_scanpy = "raise_exc ImportError (''No module named 'scanpy'' @ apostrophe)"
  let ?broken = "raise_exc OtherException ''numpy.dtype size changed''"
  let ?line = "wrench_sign @ '' Applying PCA compatibility patches...''"
  have a1: "fst (anndata_try_body b no_anndata_world) = Some ?no_anndata" for b
    by (simp add: anndata_try_body_def no_anndata_world_def)
  have a2: "is_Exception ?no_anndata" "exc_type ?no_scanpy = ImportError"
    "exc_type ?broken \<noteq> ImportError"
    by (simp_all add: is_Exception_def raise_exc_def)
  have a3: "fst (pca_try_body c no_anndata_world) = None"
    "fst (pca_try_body c (print ?line no_anndata_world)) = None" for c
    by (simp_all add: pca_try_body_def store_original_pca_def no_anndata_world_def
        example_world_def print_def)
  have s1: "fst (anndata_try_body b no_scanpy_world) = None" for b
    by (simp add: anndata_try_body_def no_scanpy_world_def example_world_def Let_def)
  have s2: "fst (pca_try_body c no_scanpy_world) = Some ?no_scanpy"
    "fst (pca_try_body c (print ?line no_scanpy_world)) = Some ?no_scanpy" for c
    by (simp_all add: pca_try_body_def no_scanpy_world_def print_def)
  have b1: "fst (pca_try_body c (print ?line broken_scanpy_world)) = Some ?broken" for c
    by (simp add: pca_try_body_def broken_scanpy_world_def print_def)
  note t = patch_functions_exception_handling
  from t [of no_anndata_world ?no_anndata] a1 a2 a3
  have c1: "fst (apply_anndata_compatibility no_anndata_world) = None
      \<and> fst (patch_anndata no_anndata_world) = None
      \<and> fst (apply_pca_compatibility no_anndata_world) = None
      \<and> fst (patch_pca_compatibility no_anndata_world) = None"
    by simp
  from t [of no_scanpy_world ?no_scanpy] s1 s2 a2
  have c2: "fst (apply_anndata_compatibility no_scanpy_world) = None
      \<and> fst (patch_anndata no_scanpy_world) = None
      \<and> fst (apply_pca_compatibility no_scanpy_world) = None
      \<and> fst (patch_pca_compatibility no_scanpy_world) = None"
    by simp
  from t [of broken_scanpy_world ?broken] b1 a2
  have c3: "fst (patch_pca_compatibility broken_scanpy_world) = Some ?broken"
    by simp
  from c1 c2 c3 show ?thesis by blast
qed

section \<open>Exit codes of the two command-line scripts\<close>

lemma is_Exception_raise_exc:
  "is_Exception (raise_exc c s) \<longleftrightarrow> c \<noteq> SystemExit \<and> c \<noteq> KeyboardInterrupt"
  by (simp add: is_Exception_def raise_exc_def)

lemma py_getitem_raises: "py_getitem j k = Inl e \<Longrightarrow> is_Exception e"
  by (cases j) (auto simp: is_Exception_raise_exc split: option.splits)

lemma py_len_raises: "py_len j = Inl e \<Longrightarrow> is_Exception e"
  by (cases j) (auto simp: is_Exception_raise_exc)

lemma py_insert_raises: "py_insert j i x = Inl e \<Longrightarrow> is_Exception e"
  by (cases j) (auto simp: is_Exception_raise_exc)

lemma insert_compatibility_cell_raises:
  assumes "fst (insert_compatibility_cell nb w) = Inl e"
  shows "is_Exception e"
  using assms py_getitem_raises py_len_raises py_insert_raises
  by (auto simp: insert_compatibility_cell_def split: sum.splits if_splits)

lemma insert_compatibility_cell_files:
  "files (snd (insert_compatibility_cell nb w)) = files w
   \<and> writable (snd (insert_compatibility_cell nb w)) = writable w
   \<and> same_file (snd (insert_compatibility_cell nb w)) = same_file w"
  by (auto simp: insert_compatibility_cell_def print_def split: sum.splits)

text \<open>When the injection fails, an \<open>Exception\<close> was raised and no file has changed.\<close>

lemma add_pca_compatibility_cell_raises:
  assumes "fst (add_pca_compatibility_cell inp outp w) = Inl e"
  shows "is_Exception e
       \<and> files (snd (add_pca_compatibility_cell inp outp w)) = files w
       \<and> writable (snd (add_pca_compatibility_cell inp outp w)) = writable w
       \<and> same_file (snd (add_pca_compatibility_cell inp outp w)) = same_file w"
proof (cases "json_load inp w")
  case (Inl e')
  then have "add_pca_compatibility_cell inp outp w = (Inl e', w)"
    by (simp add: add_pca_compatibility_cell_def)
  moreover have "is_Exception e'"
    using Inl
    by (auto simp: json_load_def is_Exception_raise_exc split: option.splits file_content.splits)
  ultimately show ?thesis using assms by simp
next
  case (Inr nb)
  obtain r w1 where ins: "insert_compatibility_cell nb w = (r, w1)"
    by (cases "insert_compatibility_cell nb w")
  have fw: "files w1 = files w \<and> writable w1 = writable w \<and> same_file w1 = same_file w"
    using insert_compatibility_cell_files [of nb w] ins by simp
  show ?thesis
  proof (cases r)
    case (Inl e')
    then have "add_pca_compatibility_cell inp outp w = (Inl e', w1)"
      using Inr ins by (simp add: add_pca_compatibility_cell_def)
    moreover have "is_Exception e'"
      using insert_compatibility_cell_raises [of nb w e'] ins Inl by simp
    ultimately show ?thesis using assms fw by simp
  next
    case (Inr nb')
    then show ?thesis
      using \<open>json_load inp w = Inr nb\<close> ins assms fw
      by (auto simp: add_pca_compatibility_cell_def json_dump_def is_Exception_raise_exc
          split: if_splits)
  qed
qed

lemma shutil_copy2_raises: "fst (shutil_copy2 src dst w) = Some e \<Longrightarrow> is_Exception e"
  by (auto simp: shutil_copy2_def is_Exception_raise_exc split: option.splits if_splits)

text \<open>
  C3, the claim as stated fails: when \<open>papermill\<close> is not installed the execution
  wrapper exits with code 1 and the output path holds nothing, not a copy of the input.
\<close>

theorem wrapper_failure_copies_nothing_counterexample:
  "fst (pca_safe_execution_main no_papermill
          [''pca_safe_execution.py'', ''in.ipynb'', ''out.ipynb''] example_world) = Exit 1
   \<and> files example_world ''in.ipynb'' = Some (JsonFile (JObj example_items))
   \<and> files (snd (pca_safe_execution_main no_papermill
          [''pca_safe_execution.py'', ''in.ipynb'', ''out.ipynb''] example_world)) ''out.ipynb'' = None"
  by (simp add: pca_safe_execution_main_def execute_with_pca_safety_def execute_try_body_def
      import_module_def no_papermill_def working_externals_def patch_pca_compatibility_def
      pca_try_body_def store_original_pca_def example_world_def and_then_def try_except_def
      print_def raise_exc_def is_Exception_def lower_char_def apostrophe_def)

text \<open>The wrapper itself writes no file: the files are as its \<open>try\<close> body left them.\<close>

lemma execute_with_pca_safety_files:
  "files (snd (execute_with_pca_safety ext inp outp w))
     = files (snd (execute_try_body ext inp outp w))"
proof (cases "execute_try_body ext inp outp w")
  case (Pair x w1)
  then show ?thesis
    by (cases x) (simp_all add: execute_with_pca_safety_def Let_def print_def)
qed

text \<open>
  C3, amended. Called with an input and an output path, the injection script exits
  with code 0 when \<open>add_pca_compatibility_cell\<close> returns and with status 1 when it
  raises; in the second case, if the input can be read, the output can be written and the
  two paths lead to different files, the script exits with code 1 and the output file
  has the content of the input file. The execution wrapper exits with code 0 when its
  \<open>try\<close> body returns, and with code 1 when the body raises an \<open>Exception\<close> whose
  lowercased text contains neither \<open>pca\<close> nor \<open>keyerror\<close>; it never copies the
  input to the output: whenever it exits, the files are as its body left them.
\<close>

theorem exit_codes_of_the_scripts:
  "(fst (add_pca_compatibility_cell inp outp w) = Inr r
      \<longrightarrow> fst (pca_compatibility_fix_main [script, inp, outp] w) = Exit 0)
   \<and> (fst (add_pca_compatibility_cell inp outp w) = Inl e
      \<longrightarrow> exit_status (fst (pca_compatibility_fix_main [script, inp, outp] w)) = Some 1)
   \<and> (fst (add_pca_compatibility_cell inp outp w) = Inl e
        \<and> files w inp = Some content \<and> inp \<noteq> outp \<and> \<not> same_file w inp outp
        \<and> writable w outp
      \<longrightarrow> fst (pca_compatibility_fix_main [script, inp, outp] w) = Exit 1
          \<and> files (snd (pca_compatibility_fix_main [script, inp, outp] w)) outp = Some content)
   \<and> (fst (execute_try_body ext inp outp w) = None
      \<longrightarrow> fst (pca_safe_execution_main ext [script, inp, outp] w) = Exit 0)
   \<and> (fst (execute_try_body ext inp outp w) = Some e \<and> is_Exception e
        \<and> \<not> (\<exists>ps ss. lower (exc_str e) = ps @ ''pca'' @ ss
              \<or> lower (exc_str e) = ps @ ''keyerror'' @ ss)
      \<longrightarrow> fst (pca_safe_execution_main ext [script, inp, outp] w) = Exit 1)
   \<and> files (snd (pca_safe_execution_main ext [script, inp, outp] w))
       = files (snd (execute_try_body ext inp outp w))"
proof -
  let ?main = "pca_compatibility_fix_main [script, inp, outp] w"
  let ?add = "add_pca_compatibility_cell inp outp w"
  let ?body = "execute_try_body ext inp outp w"
  let ?wrap = "pca_safe_execution_main ext [script, inp, outp] w"
  have kw: "(py_in ''pca'' s \<or> py_in ''keyerror'' s)
      \<longleftrightarrow> (\<exists>ps ss. s = ps @ ''pca'' @ ss \<or> s = ps @ ''keyerror'' @ ss)" for s
    unfolding py_in_iff by blast
  have c1: "fst ?main = Exit 0" if "fst ?add = Inr r"
    using that by (cases ?add) (simp add: pca_compatibility_fix_main_def)
  have c2: "exit_status (fst ?main) = Some 1" if raised: "fst ?add = Inl e"
  proof -
    obtain w1 where add: "?add = (Inl e, w1)" using raised by (cases ?add) auto
    have exc: "is_Exception e" using add_pca_compatibility_cell_raises [OF raised] by simp
    let ?w2 = "print (cross_sign @ '' Failed to create compatibility fix: '' @ exc_str e) w1"
    show ?thesis
    proof (cases "fst (shutil_copy2 inp outp ?w2)")
      case None
      then show ?thesis using add exc
        by (cases "shutil_copy2 inp outp ?w2") (simp add: pca_compatibility_fix_main_def)
    next
      case (Some e2)
      then have "is_Exception e2" by (rule shutil_copy2_raises)
      then show ?thesis using add exc Some
        by (cases "shutil_copy2 inp outp ?w2") (simp add: pca_compatibility_fix_main_def)
    qed
  qed
  have c3: "fst ?main = Exit 1 \<and> files (snd ?main) outp = Some content"
    if raised: "fst ?add = Inl e"
      and readable: "files w inp = Some content" "inp \<noteq> outp" "\<not> same_file w inp outp"
        "writable w outp"
  proof -
    obtain w1 where add: "?add = (Inl e, w1)" using raised by (cases ?add) auto
    have exc: "is_Exception e"
      and fw: "files w1 = files w" "writable w1 = writable w" "same_file w1 = same_file w"
      using add_pca_compatibility_cell_raises [OF raised] add by simp_all
    show ?thesis using add exc fw readable
      by (simp add: pca_compatibility_fix_main_def shutil_copy2_def write_file_def print_def)
  qed
  have c4: "fst ?wrap = Exit 0" if "fst ?body = None"
    using that by (cases ?body) (simp add: pca_safe_execution_main_def execute_with_pca_safety_def)
  have c5: "fst ?wrap = Exit 1"
    if "fst ?body = Some e" "is_Exception e"
      "\<not> (\<exists>ps ss. lower (exc_str e) = ps @ ''pca'' @ ss \<or> lower (exc_str e) = ps @ ''keyerror'' @ ss)"
    using that kw [of "lower (exc_str e)"]
    by (cases ?body) (simp add: pca_safe_execution_main_def execute_with_pca_safety_def)
  have c6: "files (snd ?wrap) = files (snd ?body)"
    using execute_with_pca_safety_files [of ext inp outp w]
    by (cases "execute_with_pca_safety ext inp outp w"; cases "fst (execute_with_pca_safety ext inp outp w)")
      (simp_all add: pca_safe_execution_main_def)
  from c1 c2 c3 c4 c5 c6 show ?thesis by blast
qed

theorem exit_codes_of_the_scripts_witness:
  "fst (pca_compatibility_fix_main [''pca_compatibility_fix.py'', ''in.ipynb'', ''out.ipynb'']
          example_world) = Exit 0
   \<and> fst (pca_compatibility_fix_main [''pca_compatibility_fix.py'', ''broken.ipynb'', ''out.ipynb'']
          example_world) = Exit 1
   \<and> files (snd (pca_compatibility_fix_main
          [''pca_compatibility_fix.py'', ''broken.ipynb'', ''out.ipynb''] example_world)) ''out.ipynb''
       = Some (RawFile ''{'cells': ['')
   \<and> fst (pca_safe_execution_main working_externals
          [''pca_safe_execution.py'', ''in.ipynb'', ''out.ipynb''] example_world) = Exit 0
   \<and> fst (pca_safe_execution_main no_papermill
          [''pca_safe_execution.py'', ''in.ipynb'', ''out.ipynb''] example_world) = Exit 1"
proof -
  let ?decode = "raise_exc ValueError ''Expecting value''"
  let ?no_papermill = "raise_exc ImportError (''No module named 'papermill'' @ apostrophe)"
  have kw: "(py_in ''pca'' s \<or> py_in ''keyerror'' s)
      \<longleftrightarrow> (\<exists>ps ss. s = ps @ ''pca'' @ ss \<or> s = ps @ ''keyerror'' @ ss)" for s
    unfolding py_in_iff by blast
  have a1: "fst (add_pca_compatibility_cell ''in.ipynb'' ''out.ipynb'' example_world) = Inr True"
    by (simp add: add_pca_compatibility_cell_def json_load_def insert_compatibility_cell_def
        insert_index_def json_dump_def print_def example_world_def example_items_def
        example_cells_def list_insert_def)
  have a2: "fst (add_pca_compatibility_cell ''broken.ipynb'' ''out.ipynb'' example_world) = Inl ?decode"
    by (simp add: add_pca_compatibility_cell_def json_load_def example_world_def)
  have a3: "files example_world ''broken.ipynb'' = Some (RawFile ''{'cells': ['')"
    "''broken.ipynb'' \<noteq> ''out.ipynb''" "\<not> same_file example_world ''broken.ipynb'' ''out.ipynb''"
    "writable example_world ''out.ipynb''"
    by (simp_all add: example_world_def)
  have b1: "fst (execute_try_body working_externals ''in.ipynb'' ''out.ipynb'' example_world) = None"
    by (simp add: execute_try_body_def import_module_def working_externals_def
        patch_pca_compatibility_def pca_try_body_def store_original_pca_def example_world_def
        and_then_def try_except_def print_def)
  have b3: "fst (execute_try_body no_papermill ''in.ipynb'' ''out.ipynb'' example_world)
      = Some ?no_papermill"
    by (simp add: execute_try_body_def import_module_def no_papermill_def working_externals_def
        patch_pca_compatibility_def pca_try_body_def store_original_pca_def example_world_def
        and_then_def try_except_def print_def)
  have e: "is_Exception ?no_papermill"
    by (simp add: is_Exception_raise_exc)
  have "\<not> (py_in ''pca'' (lower (exc_str ?no_papermill))
      \<or> py_in ''keyerror'' (lower (exc_str ?no_papermill)))"
    by (simp add: raise_exc_def lower_char_def apostrophe_def)
  then have n: "\<not> (\<exists>ps ss. lower (exc_str ?no_papermill) = ps @ ''pca'' @ ss
      \<or> lower (exc_str ?no_papermill) = ps @ ''keyerror'' @ ss)"
    using kw by blast
  note t = exit_codes_of_the_scripts
  from t [where inp = "''in.ipynb''" and outp = "''out.ipynb''" and w = example_world and r = True] a1
  have c1: "fst (pca_compatibility_fix_main [''pca_compatibility_fix.py'', ''in.ipynb'', ''out.ipynb'']
          example_world) = Exit 0"
    by blast
  from t [where inp = "''broken.ipynb''" and outp = "''out.ipynb''" and w = example_world
      and e = ?decode and content = "RawFile ''{'cells': [''"] a2 a3
  have c2: "fst (pca_compatibility_fix_main [''pca_compatibility_fix.py'', ''broken.ipynb'', ''out.ipynb'']
          example_world) = Exit 1
     \<and> files (snd (pca_compatibility_fix_main
          [''pca_compatibility_fix.py'', ''broken.ipynb'', ''out.ipynb''] example_world)) ''out.ipynb''
       = Some (RawFile ''{'cells': ['')"
    by blast
  from t [where inp = "''in.ipynb''" and outp = "''out.ipynb''" and w = example_world
      and ext = working_externals] b1
  have c3: "fst (pca_safe_execution_main working_externals
          [''pca_safe_execution.py'', ''in.ipynb'', ''out.ipynb''] example_world) = Exit 0"
    by blast
  from t [where inp = "''in.ipynb''" and outp = "''out.ipynb''" and w = example_world
      and ext = no_papermill and e = ?no_papermill] b3 e n
  have c5: "fst (pca_safe_execution_main no_papermill
          [''pca_safe_execution.py'', ''in.ipynb'', ''out.ipynb''] example_world) = Exit 1"
    by blast
  from c1 c2 c3 c5 show ?thesis by blast
qed

end
